theory Spec2Isabelle
  imports Main
begin

section \<open>Data model\<close>

text \<open>
  The store is a relational database reached through Prisma. A table is the list of its
  rows; a row is a record of the columns the services read or write. The enumeration
  \<open>ParticipantRole\<close> of the schema has the four values owner, admin, member and viewer;
  the third is written \<open>member_role\<close> here because \<open>member\<close> is a list function of HOL.
\<close>

datatype ParticipantRole = owner | admin | member_role | viewer

record user_row =
  u_id :: nat
  u_user_key :: "string option"
  u_phone :: "string option"

record role_row =
  r_id :: nat
  r_name :: string
  r_code :: string
  r_description :: "string option"
  r_is_system :: bool
  r_updated_at :: nat

record permission_row =
  p_id :: nat
  p_name :: string
  p_code :: string
  p_resource :: string
  p_action :: string

record role_permission_row =
  rp_role_id :: nat
  rp_permission_id :: nat

record user_role_row =
  ur_id :: nat
  ur_user_id :: nat
  ur_role_id :: nat

record plan_row =
  pl_id :: nat
  pl_is_public :: bool
  pl_creator :: nat

record plan_participant_row =
  pp_plan_id :: nat
  pp_user_id :: nat
  pp_role :: ParticipantRole

record database =
  users :: "user_row list"
  roles :: "role_row list"
  permissions :: "permission_row list"
  role_permissions :: "role_permission_row list"
  user_roles :: "user_role_row list"
  plans :: "plan_row list"
  plan_participants :: "plan_participant_row list"
  collation :: "string \<Rightarrow> string"

text \<open>
  Every table of the schema is declared with the collation \<open>utf8mb4_unicode_ci\<close>, so
  the store compares the text columns without regard to case, accents and trailing
  blanks. The field \<open>collation\<close> is the key function of the store's collation: two
  strings are equal for the store when their keys are equal. The theorems about the
  services hold for every key function.
\<close>

definition store_eq :: "database \<Rightarrow> string \<Rightarrow> string \<Rightarrow> bool" where
  "store_eq db a b = (collation db a = collation db b)"

text \<open>A nullable text column against a value of type \<open>string | undefined\<close>.\<close>

definition column_eq :: "database \<Rightarrow> string option \<Rightarrow> string option \<Rightarrow> bool" where
  "column_eq db col v =
     (case col of
        None \<Rightarrow> False
      | Some a \<Rightarrow> (case v of None \<Rightarrow> False | Some b \<Rightarrow> store_eq db a b))"

text \<open>
  The exceptions of the services, each with its message. \<open>PrismaError\<close> stands for what
  the store itself raises: a unique or foreign key violation, an update of a missing row.
\<close>

datatype error =
    BadRequestException string
  | NotFoundException string
  | ForbiddenException string
  | ConflictException string
  | PrismaError string

text \<open>
  An operation takes the database and returns its outcome together with the database it
  leaves behind; a thrown exception is \<open>Inl\<close>.
\<close>

type_synonym 'a outcome = "(error + 'a) \<times> database"

definition isOk :: "error + 'a \<Rightarrow> bool" where
  "isOk r = (case r of Inl _ \<Rightarrow> False | Inr _ \<Rightarrow> True)"

section \<open>String helpers of the runtime\<close>

text \<open>\<open>Array.prototype.join\<close>.\<close>

fun join :: "string list \<Rightarrow> string \<Rightarrow> string" where
  "join [] sep = []"
| "join [x] sep = x"
| "join (x # y # ys) sep = x @ sep @ join (y # ys) sep"

text \<open>A number inside a template string: its decimal digits.\<close>

definition digit :: "nat \<Rightarrow> char" where
  "digit d = char_of (of_char (CHR ''0'') + d)"

fun string_of_nat :: "nat \<Rightarrow> string" where
  "string_of_nat n =
     (if 10 \<le> n then string_of_nat (n div 10) @ [digit (n mod 10)] else [digit n])"

declare string_of_nat.simps [simp del]

text \<open>
  A value of type \<open>string | undefined\<close> in a condition: \<open>undefined\<close> and the empty
  string are falsy.
\<close>

definition truthy :: "string option \<Rightarrow> bool" where
  "truthy s = (case s of None \<Rightarrow> False | Some v \<Rightarrow> v \<noteq> [])"

text \<open>
  A value of type \<open>string | undefined\<close> inside a template string, and the double
  quote character of the messages.
\<close>

definition template :: "string option \<Rightarrow> string" where
  "template s = (case s of None \<Rightarrow> ''undefined'' | Some v \<Rightarrow> v)"

definition dquote :: string where
  "dquote = [CHR 0x22]"

section \<open>PlanPermissionService\<close>

fun roleLevel :: "ParticipantRole \<Rightarrow> nat" where
  "roleLevel owner = 4"
| "roleLevel admin = 3"
| "roleLevel member_role = 2"
| "roleLevel viewer = 1"

text \<open>\<open>prisma.planParticipant.findUnique\<close> on the key \<open>unique_plan_user\<close>.\<close>

definition findParticipant :: "database \<Rightarrow> nat \<Rightarrow> nat \<Rightarrow> plan_participant_row option" where
  "findParticipant db planId userId =
     find (\<lambda>p. pp_plan_id p = planId \<and> pp_user_id p = userId) (plan_participants db)"

definition getUserRole :: "database \<Rightarrow> nat \<Rightarrow> nat \<Rightarrow> ParticipantRole option" where
  "getUserRole db planId userId = map_option pp_role (findParticipant db planId userId)"

definition isParticipant :: "database \<Rightarrow> nat \<Rightarrow> nat \<Rightarrow> bool" where
  "isParticipant db planId userId = (getUserRole db planId userId \<noteq> None)"

definition hasRole :: "database \<Rightarrow> nat \<Rightarrow> nat \<Rightarrow> ParticipantRole \<Rightarrow> bool" where
  "hasRole db planId userId requiredRole =
     (case getUserRole db planId userId of
        None \<Rightarrow> False
      | Some userRole \<Rightarrow> roleLevel userRole \<ge> roleLevel requiredRole)"

definition canInviteMembers :: "database \<Rightarrow> nat \<Rightarrow> nat \<Rightarrow> bool" where
  "canInviteMembers db planId userId = hasRole db planId userId admin"

definition canChangeRole :: "database \<Rightarrow> nat \<Rightarrow> nat \<Rightarrow> bool" where
  "canChangeRole db planId userId = hasRole db planId userId owner"

definition canRemoveMember :: "database \<Rightarrow> nat \<Rightarrow> nat \<Rightarrow> nat \<Rightarrow> bool" where
  "canRemoveMember db planId operatorId targetUserId =
     (case getUserRole db planId operatorId of
        None \<Rightarrow> False
      | Some operatorRole \<Rightarrow>
         (case getUserRole db planId targetUserId of
            None \<Rightarrow> False
          | Some targetRole \<Rightarrow>
              if roleLevel operatorRole < roleLevel admin then False
              else if operatorRole = owner then targetRole \<noteq> owner
              else roleLevel operatorRole > roleLevel targetRole))"

section \<open>PlanParticipantService\<close>

definition findUserByKeyOrPhone :: "database \<Rightarrow> string option \<Rightarrow> string option \<Rightarrow> error + nat" where
  "findUserByKeyOrPhone db user_key phone =
     (if \<not> truthy user_key \<and> \<not> truthy phone then
        Inl (BadRequestException ''Must provide user_key or phone'')
      else if truthy user_key then
        (case find (\<lambda>u. column_eq db (u_user_key u) user_key) (users db) of
           None \<Rightarrow> Inl (NotFoundException
             (''User with user_key '' @ dquote @ template user_key @ dquote @ '' not found''))
         | Some user \<Rightarrow> Inr (u_id user))
      else
        (case find (\<lambda>u. column_eq db (u_phone u) phone) (users db) of
           None \<Rightarrow> Inl (NotFoundException
             (''User with phone '' @ dquote @ template phone @ dquote @ '' not found''))
         | Some user \<Rightarrow> Inr (u_id user)))"

record InviteParticipantDto =
  invite_user_key :: "string option"
  invite_phone :: "string option"
  invite_role :: "ParticipantRole option"

record UpdateParticipantRoleDto =
  update_user_key :: "string option"
  update_phone :: "string option"
  update_role :: ParticipantRole

text \<open>
  \<open>prisma.planParticipant.create\<close>: the store refuses a second row for the same plan
  and user, and a row whose plan or user does not exist.
\<close>

definition createParticipant :: "database \<Rightarrow> plan_participant_row \<Rightarrow> plan_participant_row outcome" where
  "createParticipant db row =
     (if findParticipant db (pp_plan_id row) (pp_user_id row) \<noteq> None then
        (Inl (PrismaError ''Unique constraint failed''), db)
      else if pp_plan_id row \<notin> set (map pl_id (plans db))
              \<or> pp_user_id row \<notin> set (map u_id (users db)) then
        (Inl (PrismaError ''Foreign key constraint failed''), db)
      else (Inr row, db\<lparr>plan_participants := plan_participants db @ [row]\<rparr>))"

definition inviteParticipant :: "database \<Rightarrow> nat \<Rightarrow> nat \<Rightarrow> InviteParticipantDto \<Rightarrow> plan_participant_row outcome" where
  "inviteParticipant db planId inviterId inviteDto =
     (if \<not> canInviteMembers db planId inviterId then
        (Inl (ForbiddenException ''You do not have permission to invite members''), db)
      else
        (case findUserByKeyOrPhone db (invite_user_key inviteDto) (invite_phone inviteDto) of
           Inl e \<Rightarrow> (Inl e, db)
         | Inr targetUserId \<Rightarrow>
            if findParticipant db planId targetUserId \<noteq> None then
              (Inl (ConflictException ''User is already a participant''), db)
            else if (invite_role inviteDto = Some admin \<or> invite_role inviteDto = Some owner)
                    \<and> getUserRole db planId inviterId \<noteq> Some owner then
              (Inl (ForbiddenException ''Only owner can invite admin or owner''), db)
            else
              createParticipant db
                \<lparr>pp_plan_id = planId, pp_user_id = targetUserId,
                 pp_role = (case invite_role inviteDto of None \<Rightarrow> member_role | Some r \<Rightarrow> r)\<rparr>))"

text \<open>\<open>prisma.planParticipant.delete\<close> on the key \<open>unique_plan_user\<close>.\<close>

definition deleteParticipant :: "database \<Rightarrow> nat \<Rightarrow> nat \<Rightarrow> database" where
  "deleteParticipant db planId userId =
     db\<lparr>plan_participants :=
          filter (\<lambda>p. \<not> (pp_plan_id p = planId \<and> pp_user_id p = userId)) (plan_participants db)\<rparr>"

definition removeParticipant :: "database \<Rightarrow> nat \<Rightarrow> string option \<Rightarrow> string option \<Rightarrow> nat \<Rightarrow> string outcome" where
  "removeParticipant db planId user_key phone operatorId =
     (case findUserByKeyOrPhone db user_key phone of
        Inl e \<Rightarrow> (Inl e, db)
      | Inr targetUserId \<Rightarrow>
         if \<not> canRemoveMember db planId operatorId targetUserId then
           (Inl (ForbiddenException ''You do not have permission to remove this participant''), db)
         else if targetUserId = operatorId then
           (Inl (ConflictException ''Cannot remove yourself. Use leave instead.''), db)
         else
           (case findParticipant db planId targetUserId of
              None \<Rightarrow> (Inl (NotFoundException ''Participant not found''), db)
            | Some participant \<Rightarrow>
               if pp_role participant = owner then
                 (Inl (ForbiddenException ''Cannot remove plan owner''), db)
               else
                 (Inr ''Participant removed successfully'',
                  deleteParticipant db planId targetUserId)))"

text \<open>
  \<open>prisma.planParticipant.update\<close> on the key \<open>unique_plan_user\<close>: the role of the
  row is overwritten; the store raises when there is no such row.
\<close>

definition updateParticipant :: "database \<Rightarrow> nat \<Rightarrow> nat \<Rightarrow> ParticipantRole \<Rightarrow> error + (plan_participant_row \<times> database)" where
  "updateParticipant db planId userId newRole =
     (case findParticipant db planId userId of
        None \<Rightarrow> Inl (PrismaError ''Record to update not found'')
      | Some p \<Rightarrow>
          Inr (p\<lparr>pp_role := newRole\<rparr>,
               db\<lparr>plan_participants :=
                    map (\<lambda>q. if pp_plan_id q = planId \<and> pp_user_id q = userId
                              then q\<lparr>pp_role := newRole\<rparr> else q)
                        (plan_participants db)\<rparr>))"

text \<open>\<open>prisma.plan.update\<close> of the column \<open>creator\<close>.\<close>

definition findPlan :: "database \<Rightarrow> nat \<Rightarrow> plan_row option" where
  "findPlan db planId = find (\<lambda>pl. pl_id pl = planId) (plans db)"

definition updatePlanCreator :: "database \<Rightarrow> nat \<Rightarrow> nat \<Rightarrow> error + (plan_row \<times> database)" where
  "updatePlanCreator db planId newCreator =
     (case findPlan db planId of
        None \<Rightarrow> Inl (PrismaError ''Record to update not found'')
      | Some pl \<Rightarrow>
          Inr (pl\<lparr>pl_creator := newCreator\<rparr>,
               db\<lparr>plans :=
                    map (\<lambda>q. if pl_id q = planId then q\<lparr>pl_creator := newCreator\<rparr> else q)
                        (plans db)\<rparr>))"

definition updateParticipantRole :: "database \<Rightarrow> nat \<Rightarrow> nat \<Rightarrow> UpdateParticipantRoleDto \<Rightarrow> plan_participant_row outcome" where
  "updateParticipantRole db planId operatorId updateDto =
     (if \<not> canChangeRole db planId operatorId then
        (Inl (ForbiddenException ''Only owner can change participant roles''), db)
      else
        (case findUserByKeyOrPhone db (update_user_key updateDto) (update_phone updateDto) of
           Inl e \<Rightarrow> (Inl e, db)
         | Inr targetUserId \<Rightarrow>
            (case findParticipant db planId targetUserId of
               None \<Rightarrow> (Inl (NotFoundException ''Participant not found''), db)
             | Some participant \<Rightarrow>
                if targetUserId = operatorId then
                  (Inl (ConflictException ''Cannot change your own role''), db)
                else if pp_role participant = owner then
                  (Inl (ForbiddenException
                     ''Cannot change owner role. Use transfer ownership instead.''), db)
                else if update_role updateDto = owner then
                  (Inl (ForbiddenException
                     ''Cannot assign owner role. Use transfer ownership instead.''), db)
                else
                  (case updateParticipant db planId targetUserId (update_role updateDto) of
                     Inl e \<Rightarrow> (Inl e, db)
                   | Inr (row, db') \<Rightarrow> (Inr row, db')))))"

text \<open>
  \<open>transferOwnership\<close> runs its three updates in one \<open>$transaction\<close>, in the order of
  the array: when one of them raises, the transaction is rolled back and the database is
  the one before the call.
\<close>

definition transferOwnership :: "database \<Rightarrow> nat \<Rightarrow> nat \<Rightarrow> nat \<Rightarrow> (plan_participant_row \<times> plan_participant_row \<times> plan_row) outcome" where
  "transferOwnership db planId currentOwnerId newOwnerId =
     (case findParticipant db planId currentOwnerId of
        None \<Rightarrow> (Inl (ForbiddenException ''Only owner can transfer ownership''), db)
      | Some currentOwner \<Rightarrow>
         if pp_role currentOwner \<noteq> owner then
           (Inl (ForbiddenException ''Only owner can transfer ownership''), db)
         else
           (case findParticipant db planId newOwnerId of
              None \<Rightarrow> (Inl (NotFoundException ''New owner must be a participant of the plan''), db)
            | Some newOwner \<Rightarrow>
               (case updateParticipant db planId currentOwnerId admin of
                  Inl e \<Rightarrow> (Inl e, db)
                | Inr (r1, db1) \<Rightarrow>
                   (case updateParticipant db1 planId newOwnerId owner of
                      Inl e \<Rightarrow> (Inl e, db)
                    | Inr (r2, db2) \<Rightarrow>
                       (case updatePlanCreator db2 planId newOwnerId of
                          Inl e \<Rightarrow> (Inl e, db)
                        | Inr (r3, db3) \<Rightarrow> (Inr (r1, r2, r3), db3))))))"

section \<open>Store operations on the role tables\<close>

text \<open>
  An auto-increment key: the store hands out a number no row of the table carries. The
  services never read the number itself.
\<close>

definition fresh_id :: "nat list \<Rightarrow> nat" where
  "fresh_id ids = Suc (fold max ids 0)"

text \<open>\<open>prisma.role.findMany({ where: { code: { in: roleCodes } } })\<close>.\<close>

definition findRolesByCodes :: "database \<Rightarrow> string list \<Rightarrow> role_row list" where
  "findRolesByCodes db roleCodes =
     filter (\<lambda>r. \<exists>c\<in>set roleCodes. store_eq db (r_code r) c) (roles db)"

text \<open>\<open>prisma.userRole.findMany({ where: { user_id: userId } })\<close>.\<close>

definition userRolesOf :: "database \<Rightarrow> nat \<Rightarrow> user_role_row list" where
  "userRolesOf db userId = filter (\<lambda>ur. ur_user_id ur = userId) (user_roles db)"

text \<open>
  \<open>prisma.userRole.createMany\<close> for one user: the store refuses a pair of user and role
  that occurs twice, in the table or in the data, and a pair whose user or role does not
  exist; otherwise every pair becomes a row with a fresh key.
\<close>

definition createManyUserRoles :: "database \<Rightarrow> nat \<Rightarrow> nat list \<Rightarrow> error + database" where
  "createManyUserRoles db userId roleIds =
     (if \<not> distinct roleIds
         \<or> set roleIds \<inter> set (map ur_role_id (userRolesOf db userId)) \<noteq> {} then
        Inl (PrismaError ''Unique constraint failed'')
      else if userId \<notin> set (map u_id (users db))
              \<or> \<not> set roleIds \<subseteq> set (map r_id (roles db)) then
        Inl (PrismaError ''Foreign key constraint failed'')
      else
        (let n = fresh_id (map ur_id (user_roles db)) in
         Inr (db\<lparr>user_roles := user_roles db @
                map (\<lambda>(i, roleId). \<lparr>ur_id = i, ur_user_id = userId, ur_role_id = roleId\<rparr>)
                    (zip [n ..< n + length roleIds] roleIds)\<rparr>)))"

text \<open>The relation \<open>ur.role\<close> of a user-role row, as \<open>include\<close> joins it.\<close>

definition roleOfUserRole :: "database \<Rightarrow> user_role_row \<Rightarrow> role_row list" where
  "roleOfUserRole db ur = filter (\<lambda>r. r_id r = ur_role_id ur) (roles db)"

text \<open>
  The relation \<open>role.role_permissions\<close> with each row's \<open>permission\<close>, as \<open>include\<close>
  joins them.
\<close>

definition permissionsOfRole :: "database \<Rightarrow> nat \<Rightarrow> permission_row list" where
  "permissionsOfRole db roleId =
     concat (map (\<lambda>rp. filter (\<lambda>p. p_id p = rp_permission_id rp) (permissions db))
                 (filter (\<lambda>rp. rp_role_id rp = roleId) (role_permissions db)))"

text \<open>
  \<open>prisma.rolePermission.createMany\<close> for one role, under the unique key on role and
  permission and the two foreign keys.
\<close>

definition createManyRolePermissions :: "database \<Rightarrow> nat \<Rightarrow> nat list \<Rightarrow> error + database" where
  "createManyRolePermissions db roleId permissionIds =
     (if \<not> distinct permissionIds
         \<or> set permissionIds
             \<inter> set (map rp_permission_id
                      (filter (\<lambda>rp. rp_role_id rp = roleId) (role_permissions db))) \<noteq> {} then
        Inl (PrismaError ''Unique constraint failed'')
      else if roleId \<notin> set (map r_id (roles db))
              \<or> \<not> set permissionIds \<subseteq> set (map p_id (permissions db)) then
        Inl (PrismaError ''Foreign key constraint failed'')
      else
        Inr (db\<lparr>role_permissions := role_permissions db @
               map (\<lambda>permissionId. \<lparr>rp_role_id = roleId, rp_permission_id = permissionId\<rparr>)
                   permissionIds\<rparr>))"

section \<open>UserService: the roles of a user\<close>

text \<open>
  The three private methods \<open>_assignRolesByUserId\<close>, \<open>_removeRoleByUserId\<close> and
  \<open>_updateUserRolesByUserId\<close> work on a resolved user id; their names lose the leading
  underscore here. Each returns a message with the user's id and key and the roles
  concerned; the \<open>select\<close> projections of the role rows are left out, and so is the
  logger.
\<close>

record roles_result =
  message :: string
  userId :: nat
  userKey :: string
  resultRoles :: "role_row list"

definition notFoundCodes :: "role_row list \<Rightarrow> string list \<Rightarrow> string list" where
  "notFoundCodes found roleCodes = filter (\<lambda>c. c \<notin> set (map r_code found)) roleCodes"

definition assignRolesByUserId :: "database \<Rightarrow> nat \<Rightarrow> string \<Rightarrow> string list \<Rightarrow> roles_result outcome" where
  "assignRolesByUserId db uid ukey roleCodes =
     (let found = findRolesByCodes db roleCodes in
      if length found \<noteq> length roleCodes then
        (Inl (NotFoundException
           (''Roles not found: '' @ join (notFoundCodes found roleCodes) '', '')), db)
      else
        (let roleIds = map r_id found;
             existingRoleIds = map ur_role_id (userRolesOf db uid);
             newRoleIds = filter (\<lambda>i. i \<notin> set existingRoleIds) roleIds
         in
         if length newRoleIds = 0 then
           (Inl (ConflictException ''All roles are already assigned to this user''), db)
         else
           (case createManyUserRoles db uid newRoleIds of
              Inl e \<Rightarrow> (Inl e, db)
            | Inr db' \<Rightarrow>
                (Inr \<lparr>message = string_of_nat (length newRoleIds) @ '' role(s) assigned successfully'',
                      userId = uid, userKey = ukey,
                      resultRoles = filter (\<lambda>r. r_id r \<in> set newRoleIds) found\<rparr>,
                 db'))))"

definition removeRoleByUserId :: "database \<Rightarrow> nat \<Rightarrow> string \<Rightarrow> string \<Rightarrow> roles_result outcome" where
  "removeRoleByUserId db uid ukey roleCode =
     (case find (\<lambda>r. store_eq db (r_code r) roleCode) (roles db) of
        None \<Rightarrow> (Inl (NotFoundException (''Role with code '' @ roleCode @ '' not found'')), db)
      | Some role \<Rightarrow>
         (case find (\<lambda>ur. ur_user_id ur = uid \<and> ur_role_id ur = r_id role) (user_roles db) of
            None \<Rightarrow>
              (Inl (NotFoundException (''User does not have role: '' @ r_name role)), db)
          | Some userRole \<Rightarrow>
              if length (userRolesOf db uid) = 1 then
                (Inl (ConflictException
                   ''Cannot remove the last role. User must have at least one role.''), db)
              else
                (Inr \<lparr>message = ''Role removed successfully'',
                      userId = uid, userKey = ukey, resultRoles = [role]\<rparr>,
                 db\<lparr>user_roles :=
                      filter (\<lambda>ur. ur_id ur \<noteq> ur_id userRole) (user_roles db)\<rparr>)))"

text \<open>
  The replacement runs \<open>deleteMany\<close>, \<open>createMany\<close> and the read-back inside one
  \<open>$transaction\<close>: when \<open>createMany\<close> raises, the database is the one before the call.
\<close>

definition updateUserRolesByUserId :: "database \<Rightarrow> nat \<Rightarrow> string \<Rightarrow> string list \<Rightarrow> roles_result outcome" where
  "updateUserRolesByUserId db uid ukey roleCodes =
     (if length roleCodes = 0 then
        (Inl (ConflictException ''User must have at least one role''), db)
      else
        (let found = findRolesByCodes db roleCodes in
         if length found \<noteq> length roleCodes then
           (Inl (NotFoundException
              (''Roles not found: '' @ join (notFoundCodes found roleCodes) '', '')), db)
         else
           (let roleIds = map r_id found;
                db1 = db\<lparr>user_roles := filter (\<lambda>ur. ur_user_id ur \<noteq> uid) (user_roles db)\<rparr>
            in
            case createManyUserRoles db1 uid roleIds of
              Inl e \<Rightarrow> (Inl e, db)
            | Inr db2 \<Rightarrow>
                (Inr \<lparr>message = ''User roles updated successfully'',
                      userId = uid, userKey = ukey,
                      resultRoles = concat (map (roleOfUserRole db2) (userRolesOf db2 uid))\<rparr>,
                 db2))))"

section \<open>UserContextService\<close>

text \<open>
  \<open>getUserPermissions\<close> adds the code of every permission of every role of the user to a
  \<open>Set\<close> and returns \<open>Array.from\<close> of it: the codes in the order of their first
  insertion.
\<close>

definition set_add :: "string \<Rightarrow> string list \<Rightarrow> string list" where
  "set_add code perms = (if code \<in> set perms then perms else perms @ [code])"

definition getUserPermissions :: "database \<Rightarrow> nat \<Rightarrow> string list" where
  "getUserPermissions db uid =
     fold set_add
       (concat (map (\<lambda>ur. concat (map (\<lambda>role. map p_code (permissionsOfRole db (r_id role)))
                                      (roleOfUserRole db ur)))
                    (userRolesOf db uid)))
       []"

section \<open>RoleService\<close>

record CreateRoleDto =
  dto_name :: string
  dto_description :: "string option"
  dto_isSystem :: "bool option"
  dto_permissions :: "string list option"

text \<open>\<open>prisma.permission.findMany({ where: { code: { in: permissionCodes } } })\<close>.\<close>

definition findPermissionsByCodes :: "database \<Rightarrow> string list \<Rightarrow> permission_row list" where
  "findPermissionsByCodes db permissionCodes =
     filter (\<lambda>p. \<exists>c\<in>set permissionCodes. store_eq db (p_code p) c) (permissions db)"

text \<open>\<open>tx.role.findUnique\<close> by id, with the role's permissions included.\<close>

definition findRoleWithPermissions :: "database \<Rightarrow> nat \<Rightarrow> (role_row \<times> permission_row list) option" where
  "findRoleWithPermissions db roleId =
     map_option (\<lambda>r. (r, permissionsOfRole db roleId)) (find (\<lambda>r. r_id r = roleId) (roles db))"

text \<open>
  \<open>tx.role.create\<close>: the store refuses a name or a code that a role already has, each
  compared under the collation.
\<close>

definition createRoleRow :: "database \<Rightarrow> role_row \<Rightarrow> error + database" where
  "createRoleRow db row =
     (if \<exists>r\<in>set (roles db).
           store_eq db (r_name r) (r_name row) \<or> store_eq db (r_code r) (r_code row) then
        Inl (PrismaError ''Unique constraint failed'')
      else Inr (db\<lparr>roles := roles db @ [row]\<rparr>))"

text \<open>
  \<open>createRole\<close> derives the code of the new role with \<open>String.prototype.toLowerCase\<close>.
  That function belongs to the runtime and is the second argument here; the argument
  \<open>now\<close> of \<open>createRole\<close> and \<open>updateRolePermissions\<close> is the clock, read by
  \<open>new Date()\<close> and by the column \<open>updated_at\<close>. The check of the requested codes
  against the rows found is done in JavaScript, by exact comparison of strings.
\<close>

definition createRole :: "database \<Rightarrow> (string \<Rightarrow> string) \<Rightarrow> nat \<Rightarrow> CreateRoleDto \<Rightarrow> (role_row \<times> permission_row list) option outcome" where
  "createRole db toLowerCase now createRoleDto =
     (if find (\<lambda>r. store_eq db (r_name r) (dto_name createRoleDto)
                   \<or> store_eq db (r_code r) (toLowerCase (dto_name createRoleDto)))
              (roles db) \<noteq> None then
        (Inl (ConflictException ''Role name or code already exists''), db)
      else
        (let permissionCodes = (case dto_permissions createRoleDto of None \<Rightarrow> [] | Some cs \<Rightarrow> cs);
             found = (if length permissionCodes > 0
                      then findPermissionsByCodes db permissionCodes else []);
             notFoundPermissions =
               filter (\<lambda>code. code \<notin> set (map p_code found)) permissionCodes
         in
         if length permissionCodes > 0 \<and> length notFoundPermissions > 0 then
           (Inl (BadRequestException
              (''Permissions not found: '' @ join notFoundPermissions '', '')), db)
         else
           (let newId = fresh_id (map r_id (roles db));
                row = \<lparr>r_id = newId, r_name = dto_name createRoleDto,
                       r_code = toLowerCase (dto_name createRoleDto),
                       r_description = dto_description createRoleDto,
                       r_is_system = (case dto_isSystem createRoleDto of None \<Rightarrow> False | Some b \<Rightarrow> b),
                       r_updated_at = now\<rparr>
            in
            case createRoleRow db row of
              Inl e \<Rightarrow> (Inl e, db)
            | Inr db1 \<Rightarrow>
               (case (if length found > 0
                      then createManyRolePermissions db1 newId (map p_id found)
                      else Inr db1) of
                  Inl e \<Rightarrow> (Inl e, db)
                | Inr db2 \<Rightarrow> (Inr (findRoleWithPermissions db2 newId), db2)))))"

text \<open>
  \<open>updateRolePermissions\<close>: the check of the codes against the rows found is commented
  out in the source, so the model has none. The warning for a system role is only logged.
\<close>

definition updateRolePermissions :: "database \<Rightarrow> nat \<Rightarrow> nat \<Rightarrow> string list \<Rightarrow> (role_row \<times> permission_row list) option outcome" where
  "updateRolePermissions db now roleId permissionCodes =
     (case find (\<lambda>r. r_id r = roleId) (roles db) of
        None \<Rightarrow>
          (Inl (NotFoundException (''Role with ID '' @ string_of_nat roleId @ '' not found'')), db)
      | Some role \<Rightarrow>
         (let newPermissions = (if length permissionCodes > 0
                                then findPermissionsByCodes db permissionCodes else []);
              db1 = db\<lparr>role_permissions :=
                         filter (\<lambda>rp. rp_role_id rp \<noteq> roleId) (role_permissions db)\<rparr>
          in
          case (if length newPermissions > 0
                then createManyRolePermissions db1 roleId (map p_id newPermissions)
                else Inr db1) of
            Inl e \<Rightarrow> (Inl e, db)
          | Inr db2 \<Rightarrow>
              (let db3 = db2\<lparr>roles := map (\<lambda>r. if r_id r = roleId then r\<lparr>r_updated_at := now\<rparr> else r)
                                          (roles db2)\<rparr>
               in (Inr (findRoleWithPermissions db3 roleId), db3))))"

section \<open>Two example stores\<close>

text \<open>
  The example stores hold ASCII text only. On ASCII text the collation of the tables
  ignores the case of the letters and blanks at the end; \<open>ascii_ci\<close> is such a key
  function, and \<open>ascii_lower\<close> is \<open>toLowerCase\<close> on ASCII text.
\<close>

definition ascii_lower :: "string \<Rightarrow> string" where
  "ascii_lower s =
     map (\<lambda>c. let n = (of_char c :: nat) in if 65 \<le> n \<and> n \<le> 90 then char_of (n + 32) else c) s"

definition ascii_ci :: "string \<Rightarrow> string" where
  "ascii_ci s = ascii_lower (rev (dropWhile (\<lambda>c. c = CHR '' '') (rev s)))"

subsection \<open>A store with two plans\<close>

text \<open>
  Plan 1 is owned by user 1, user 2 is admin and user 3 is member; user 4 takes no part.
  Plan 2 is the degenerate case the schema does not exclude: users 1 and 2 are both
  owner, users 3 and 4 are both admin.
\<close>

definition scenario_db :: database where
  "scenario_db =
     \<lparr>users = [\<lparr>u_id = 1, u_user_key = Some ''k1'', u_phone = None\<rparr>,
               \<lparr>u_id = 2, u_user_key = Some ''k2'', u_phone = None\<rparr>,
               \<lparr>u_id = 3, u_user_key = Some ''k3'', u_phone = Some ''13800138000''\<rparr>,
               \<lparr>u_id = 4, u_user_key = Some ''k4'', u_phone = None\<rparr>],
      roles = [], permissions = [], role_permissions = [], user_roles = [],
      plans = [\<lparr>pl_id = 1, pl_is_public = False, pl_creator = 1\<rparr>,
               \<lparr>pl_id = 2, pl_is_public = True, pl_creator = 1\<rparr>],
      plan_participants =
        [\<lparr>pp_plan_id = 1, pp_user_id = 1, pp_role = owner\<rparr>,
         \<lparr>pp_plan_id = 1, pp_user_id = 2, pp_role = admin\<rparr>,
         \<lparr>pp_plan_id = 1, pp_user_id = 3, pp_role = member_role\<rparr>,
         \<lparr>pp_plan_id = 2, pp_user_id = 1, pp_role = owner\<rparr>,
         \<lparr>pp_plan_id = 2, pp_user_id = 2, pp_role = owner\<rparr>,
         \<lparr>pp_plan_id = 2, pp_user_id = 3, pp_role = admin\<rparr>,
         \<lparr>pp_plan_id = 2, pp_user_id = 4, pp_role = admin\<rparr>],
      collation = ascii_ci\<rparr>"

subsection \<open>A store with three roles\<close>

text \<open>
  User 1 holds the role user only; user 2 holds user and editor. The role editor has the
  permissions plan:read and plan:update, admin has plan:read and user:delete.
\<close>

definition rbac_db :: database where
  "rbac_db =
     \<lparr>users = [\<lparr>u_id = 1, u_user_key = Some ''k1'', u_phone = None\<rparr>,
               \<lparr>u_id = 2, u_user_key = Some ''k2'', u_phone = None\<rparr>],
      roles = [\<lparr>r_id = 1, r_name = ''Admin'', r_code = ''admin'', r_description = None,
                 r_is_system = True, r_updated_at = 0\<rparr>,
               \<lparr>r_id = 2, r_name = ''User'', r_code = ''user'', r_description = None,
                 r_is_system = True, r_updated_at = 0\<rparr>,
               \<lparr>r_id = 3, r_name = ''Editor'', r_code = ''editor'', r_description = None,
                 r_is_system = False, r_updated_at = 0\<rparr>],
      permissions =
        [\<lparr>p_id = 1, p_name = ''Read plans'', p_code = ''plan:read'',
           p_resource = ''plan'', p_action = ''read''\<rparr>,
         \<lparr>p_id = 2, p_name = ''Update plans'', p_code = ''plan:update'',
           p_resource = ''plan'', p_action = ''update''\<rparr>,
         \<lparr>p_id = 3, p_name = ''Delete users'', p_code = ''user:delete'',
           p_resource = ''user'', p_action = ''delete''\<rparr>],
      role_permissions =
        [\<lparr>rp_role_id = 3, rp_permission_id = 1\<rparr>,
         \<lparr>rp_role_id = 3, rp_permission_id = 2\<rparr>,
         \<lparr>rp_role_id = 1, rp_permission_id = 1\<rparr>,
         \<lparr>rp_role_id = 1, rp_permission_id = 3\<rparr>],
      user_roles =
        [\<lparr>ur_id = 1, ur_user_id = 1, ur_role_id = 2\<rparr>,
         \<lparr>ur_id = 2, ur_user_id = 2, ur_role_id = 2\<rparr>,
         \<lparr>ur_id = 3, ur_user_id = 2, ur_role_id = 3\<rparr>],
      plans = [], plan_participants = [], collation = ascii_ci\<rparr>"

section \<open>Removing a member\<close>

text \<open>
  Claim C1. \<open>canRemoveMember\<close> is true exactly when operator and target are both
  participants of the plan, the operator ranks at least admin, and either the operator is
  owner and the target is not, or the operator is admin and ranks strictly above the
  target; the ranks are viewer 1, member 2, admin 3, owner 4. So an admin removes neither
  an admin nor the owner, and an owner does not remove an owner.
\<close>

theorem canRemoveMember_iff:
  "(canRemoveMember db P opr tgt \<longleftrightarrow>
     (\<exists>ro rt. getUserRole db P opr = Some ro \<and> getUserRole db P tgt = Some rt \<and>
        roleLevel ro \<ge> roleLevel admin \<and>
        ((ro = owner \<and> rt \<noteq> owner) \<or> (ro = admin \<and> roleLevel ro > roleLevel rt))))
   \<and> roleLevel viewer = 1 \<and> roleLevel member_role = 2 \<and> roleLevel admin = 3 \<and> roleLevel owner = 4
   \<and> (getUserRole db P opr = Some admin \<and> getUserRole db P tgt = Some admin
        \<longrightarrow> \<not> canRemoveMember db P opr tgt)
   \<and> (getUserRole db P opr = Some admin \<and> getUserRole db P tgt = Some owner
        \<longrightarrow> \<not> canRemoveMember db P opr tgt)
   \<and> (getUserRole db P opr = Some owner \<and> getUserRole db P tgt = Some owner
        \<longrightarrow> \<not> canRemoveMember db P opr tgt)"
proof -
  have main: "canRemoveMember db P opr tgt \<longleftrightarrow>
     (\<exists>ro rt. getUserRole db P opr = Some ro \<and> getUserRole db P tgt = Some rt \<and>
        roleLevel ro \<ge> roleLevel admin \<and>
        ((ro = owner \<and> rt \<noteq> owner) \<or> (ro = admin \<and> roleLevel ro > roleLevel rt)))"
  proof (cases "getUserRole db P opr")
    case None
    then show ?thesis by (simp add: canRemoveMember_def)
  next
    case (Some ro)
    note ro = this
    show ?thesis
    proof (cases "getUserRole db P tgt")
      case None
      then show ?thesis using ro by (simp add: canRemoveMember_def)
    next
      case (Some rt)
      then show ?thesis using ro
        by (cases ro; cases rt) (simp_all add: canRemoveMember_def)
    qed
  qed
  show ?thesis
    by (simp add: main)
qed

theorem canRemoveMember_iff_witness:
  "getUserRole scenario_db 1 2 = Some admin
   \<and> getUserRole scenario_db 1 1 = Some owner
   \<and> getUserRole scenario_db 1 3 = Some member_role
   \<and> \<not> canRemoveMember scenario_db 1 2 1
   \<and> canRemoveMember scenario_db 1 2 3
   \<and> getUserRole scenario_db 2 3 = Some admin
   \<and> getUserRole scenario_db 2 4 = Some admin
   \<and> \<not> canRemoveMember scenario_db 2 3 4
   \<and> getUserRole scenario_db 2 1 = Some owner
   \<and> getUserRole scenario_db 2 2 = Some owner
   \<and> \<not> canRemoveMember scenario_db 2 1 2"
proof -
  have h1: "getUserRole scenario_db 1 2 = Some admin"
    by (simp add: scenario_db_def getUserRole_def findParticipant_def)
  have h2: "getUserRole scenario_db 1 1 = Some owner"
    by (simp add: scenario_db_def getUserRole_def findParticipant_def)
  have h3: "getUserRole scenario_db 1 3 = Some member_role"
    by (simp add: scenario_db_def getUserRole_def findParticipant_def)
  have h4: "getUserRole scenario_db 2 3 = Some admin"
    by (simp add: scenario_db_def getUserRole_def findParticipant_def)
  have h5: "getUserRole scenario_db 2 4 = Some admin"
    by (simp add: scenario_db_def getUserRole_def findParticipant_def)
  have h6: "getUserRole scenario_db 2 1 = Some owner"
    by (simp add: scenario_db_def getUserRole_def findParticipant_def)
  have h7: "getUserRole scenario_db 2 2 = Some owner"
    by (simp add: scenario_db_def getUserRole_def findParticipant_def)
  from canRemoveMember_iff [of scenario_db 1 2 1] h1 h2
  have a: "\<not> canRemoveMember scenario_db 1 2 1" by blast
  from canRemoveMember_iff [of scenario_db 1 2 3] h1 h3
  have b: "canRemoveMember scenario_db 1 2 3" by simp
  from canRemoveMember_iff [of scenario_db 2 3 4] h4 h5
  have c: "\<not> canRemoveMember scenario_db 2 3 4" by blast
  from canRemoveMember_iff [of scenario_db 2 1 2] h6 h7
  have d: "\<not> canRemoveMember scenario_db 2 1 2" by blast
  from h1 h2 h3 h4 h5 h6 h7 a b c d show ?thesis by simp
qed

lemma canRemoveMember_self: "\<not> canRemoveMember db P u u"
proof (cases "getUserRole db P u")
  case None
  then show ?thesis by (simp add: canRemoveMember_def)
next
  case (Some r)
  then show ?thesis by (cases r) (simp_all add: canRemoveMember_def)
qed

text \<open>
  Claim C9. Nobody passes \<open>canRemoveMember\<close> against themselves, whatever their role.
  So when the target of \<open>removeParticipant\<close> resolves to the operator, the call is
  refused at the permission check with Forbidden and the database is untouched; and no
  call at all ends in the Conflict of the later branch "Cannot remove yourself".
\<close>

theorem removeParticipant_self:
  "\<not> canRemoveMember db P u u
   \<and> (findUserByKeyOrPhone db user_key phone = Inr operatorId \<longrightarrow>
        removeParticipant db P user_key phone operatorId =
          (Inl (ForbiddenException ''You do not have permission to remove this participant''), db))
   \<and> fst (removeParticipant db P user_key phone operatorId)
        \<noteq> Inl (ConflictException ''Cannot remove yourself. Use leave instead.'')"
proof (intro conjI impI)
  show "\<not> canRemoveMember db P u u" by (rule canRemoveMember_self)
next
  assume "findUserByKeyOrPhone db user_key phone = Inr operatorId"
  then show "removeParticipant db P user_key phone operatorId =
          (Inl (ForbiddenException ''You do not have permission to remove this participant''), db)"
    by (simp add: removeParticipant_def canRemoveMember_self)
next
  show "fst (removeParticipant db P user_key phone operatorId)
        \<noteq> Inl (ConflictException ''Cannot remove yourself. Use leave instead.'')"
  proof (cases "findUserByKeyOrPhone db user_key phone")
    case (Inl e)
    then show ?thesis
      by (auto simp: removeParticipant_def findUserByKeyOrPhone_def
               split: if_splits option.splits)
  next
    case (Inr t)
    then show ?thesis
      using canRemoveMember_self [of db P operatorId]
      by (auto simp: removeParticipant_def split: option.splits)
  qed
qed

theorem removeParticipant_self_witness:
  "findUserByKeyOrPhone scenario_db (Some ''k2'') None = Inr 2
   \<and> removeParticipant scenario_db 1 (Some ''k2'') None 2 =
       (Inl (ForbiddenException ''You do not have permission to remove this participant''),
        scenario_db)"
proof -
  have h: "findUserByKeyOrPhone scenario_db (Some ''k2'') None = Inr 2"
    by code_simp
  from removeParticipant_self [of scenario_db 1 2 "Some ''k2''" None 2] h
  show ?thesis by blast
qed

section \<open>Transfer of ownership\<close>

lemma find_role_upd_same:
  "find (\<lambda>p. pp_plan_id p = P \<and> pp_user_id p = u)
     (map (\<lambda>q. if pp_plan_id q = P \<and> pp_user_id q = u then q\<lparr>pp_role := r\<rparr> else q) xs)
   = map_option (\<lambda>q. q\<lparr>pp_role := r\<rparr>) (find (\<lambda>p. pp_plan_id p = P \<and> pp_user_id p = u) xs)"
  by (induction xs) auto

lemma find_role_upd_other:
  "v \<noteq> u \<Longrightarrow>
   find (\<lambda>p. pp_plan_id p = P' \<and> pp_user_id p = v)
     (map (\<lambda>q. if pp_plan_id q = P \<and> pp_user_id q = u then q\<lparr>pp_role := r\<rparr> else q) xs)
   = find (\<lambda>p. pp_plan_id p = P' \<and> pp_user_id p = v) xs"
  by (induction xs) auto

lemma updateParticipant_Some:
  assumes "findParticipant db P u = Some p"
  shows "\<exists>db'. updateParticipant db P u r = Inr (p\<lparr>pp_role := r\<rparr>, db')
           \<and> getUserRole db' P u = Some r
           \<and> (\<forall>v. v \<noteq> u \<longrightarrow> findParticipant db' P v = findParticipant db P v)
           \<and> plans db' = plans db"
  using assms
  by (simp add: updateParticipant_def getUserRole_def findParticipant_def
                find_role_upd_same find_role_upd_other)

lemma find_creator_upd:
  "find (\<lambda>pl. pl_id pl = P)
     (map (\<lambda>q. if pl_id q = P then q\<lparr>pl_creator := c\<rparr> else q) xs)
   = map_option (\<lambda>q. q\<lparr>pl_creator := c\<rparr>) (find (\<lambda>pl. pl_id pl = P) xs)"
  by (induction xs) auto

lemma updatePlanCreator_Some:
  assumes "findPlan db P = Some pl"
  shows "\<exists>db'. updatePlanCreator db P c = Inr (pl\<lparr>pl_creator := c\<rparr>, db')
           \<and> map_option pl_creator (findPlan db' P) = Some c
           \<and> plan_participants db' = plan_participants db"
  using assms
  by (simp add: updatePlanCreator_def findPlan_def find_creator_upd)

lemma transferOwnership_rollback:
  "\<not> isOk (fst (transferOwnership db P caller target)) \<Longrightarrow>
     snd (transferOwnership db P caller target) = db"
  by (auto simp: transferOwnership_def isOk_def split: option.splits sum.splits if_splits)

text \<open>
  Claim C2, as amended. When the caller holds owner in plan P, the target is another
  participant of P and the plan row exists (the foreign key of the participants' table),
  \<open>transferOwnership\<close> succeeds; afterwards the caller is admin, the target is owner and
  the plan's creator is the target. The three writes are one transaction: a call that
  fails leaves the database as it was.
\<close>

theorem transferOwnership_distinct:
  assumes cur: "getUserRole db P caller = Some owner"
      and tgt: "isParticipant db P target"
      and ne: "caller \<noteq> target"
      and fk: "findPlan db P \<noteq> None"
  shows "(\<exists>res db'. transferOwnership db P caller target = (Inr res, db')
           \<and> getUserRole db' P caller = Some admin
           \<and> getUserRole db' P target = Some owner
           \<and> map_option pl_creator (findPlan db' P) = Some target)
         \<and> (\<forall>c t. \<not> isOk (fst (transferOwnership db P c t)) \<longrightarrow>
               snd (transferOwnership db P c t) = db)"
proof -
  from cur obtain p where p: "findParticipant db P caller = Some p" "pp_role p = owner"
    by (auto simp: getUserRole_def)
  from tgt obtain q where q: "findParticipant db P target = Some q"
    by (auto simp: isParticipant_def getUserRole_def)
  from fk obtain pl where pl: "findPlan db P = Some pl" by auto
  from updateParticipant_Some [OF p(1), of admin] obtain db1 where
    u1: "updateParticipant db P caller admin = Inr (p\<lparr>pp_role := admin\<rparr>, db1)"
    and r1: "getUserRole db1 P caller = Some admin"
    and o1: "\<forall>v. v \<noteq> caller \<longrightarrow> findParticipant db1 P v = findParticipant db P v"
    and p1: "plans db1 = plans db"
    by blast
  from o1 ne q have q1: "findParticipant db1 P target = Some q" by simp
  from updateParticipant_Some [OF q1, of owner] obtain db2 where
    u2: "updateParticipant db1 P target owner = Inr (q\<lparr>pp_role := owner\<rparr>, db2)"
    and r2: "getUserRole db2 P target = Some owner"
    and o2: "\<forall>v. v \<noteq> target \<longrightarrow> findParticipant db2 P v = findParticipant db1 P v"
    and p2: "plans db2 = plans db1"
    by blast
  from o2 ne r1 have c2: "getUserRole db2 P caller = Some admin"
    by (simp add: getUserRole_def)
  from pl p1 p2 have pl2: "findPlan db2 P = Some pl" by (simp add: findPlan_def)
  from updatePlanCreator_Some [OF pl2, of target] obtain db3 where
    u3: "updatePlanCreator db2 P target = Inr (pl\<lparr>pl_creator := target\<rparr>, db3)"
    and r3: "map_option pl_creator (findPlan db3 P) = Some target"
    and o3: "plan_participants db3 = plan_participants db2"
    by blast
  from o3 c2 r2 have fin:
    "getUserRole db3 P caller = Some admin" "getUserRole db3 P target = Some owner"
    by (simp_all add: getUserRole_def findParticipant_def)
  have "transferOwnership db P caller target =
          (Inr (p\<lparr>pp_role := admin\<rparr>, q\<lparr>pp_role := owner\<rparr>, pl\<lparr>pl_creator := target\<rparr>), db3)"
    using p q u1 u2 u3 by (simp add: transferOwnership_def)
  with fin r3 have "\<exists>res db'. transferOwnership db P caller target = (Inr res, db')
           \<and> getUserRole db' P caller = Some admin
           \<and> getUserRole db' P target = Some owner
           \<and> map_option pl_creator (findPlan db' P) = Some target"
    by blast
  then show ?thesis
    by (simp add: transferOwnership_rollback)
qed

theorem transferOwnership_distinct_witness:
  "getUserRole scenario_db 1 1 = Some owner
   \<and> isParticipant scenario_db 1 2
   \<and> (1::nat) \<noteq> 2
   \<and> findPlan scenario_db 1 \<noteq> None
   \<and> (\<exists>res db'. transferOwnership scenario_db 1 1 2 = (Inr res, db')
           \<and> getUserRole db' 1 1 = Some admin
           \<and> getUserRole db' 1 2 = Some owner
           \<and> map_option pl_creator (findPlan db' 1) = Some 2)
   \<and> \<not> isOk (fst (transferOwnership scenario_db 1 2 3))
   \<and> snd (transferOwnership scenario_db 1 2 3) = scenario_db"
proof -
  have h1: "getUserRole scenario_db 1 1 = Some owner"
    by (simp add: scenario_db_def getUserRole_def findParticipant_def)
  have h2: "isParticipant scenario_db 1 2"
    by (simp add: scenario_db_def isParticipant_def getUserRole_def findParticipant_def)
  have h3: "(1::nat) \<noteq> 2" by simp
  have h4: "findPlan scenario_db 1 \<noteq> None"
    by (simp add: scenario_db_def findPlan_def)
  have h5: "\<not> isOk (fst (transferOwnership scenario_db 1 2 3))"
    by (simp add: scenario_db_def transferOwnership_def findParticipant_def isOk_def)
  note t = transferOwnership_distinct [OF h1 h2 h3 h4]
  from t h5 have r: "snd (transferOwnership scenario_db 1 2 3) = scenario_db"
    by blast
  from t h1 h2 h4 h5 r show ?thesis by simp
qed

text \<open>
  The claim as the spec words it also covers an owner who names themselves as target.
  That call succeeds, and the second write makes the caller owner again.
\<close>

theorem transferOwnership_self_counterexample:
  "getUserRole scenario_db 1 1 = Some owner \<and> isParticipant scenario_db 1 1
   \<and> isOk (fst (transferOwnership scenario_db 1 1 1))
   \<and> getUserRole (snd (transferOwnership scenario_db 1 1 1)) 1 1 = Some owner
   \<and> getUserRole (snd (transferOwnership scenario_db 1 1 1)) 1 1 \<noteq> Some admin"
  by (simp add: scenario_db_def transferOwnership_def updateParticipant_def updatePlanCreator_def
        findParticipant_def findPlan_def getUserRole_def isParticipant_def isOk_def)

section \<open>Changing a participant's role\<close>

lemma updateParticipantRole_rollback:
  "\<not> isOk (fst (updateParticipantRole db P operatorId dto)) \<Longrightarrow>
     snd (updateParticipantRole db P operatorId dto) = db"
  by (auto simp: updateParticipantRole_def isOk_def split: option.splits sum.splits if_splits)

text \<open>
  Claim C5, as amended. Let the operator be owner of plan P. When the target resolves to
  the operator, \<open>updateParticipantRole\<close> is refused with Conflict ("Cannot change your
  own role"). When the target resolves to another user who holds owner in P, it is
  refused with Forbidden; when the target resolves to another participant who does not
  hold owner and the requested role is owner, it is refused with Forbidden. Every refusal
  leaves the database, and so the target's stored role, as it was.
\<close>

theorem updateParticipantRole_denials:
  assumes op: "getUserRole db P operatorId = Some owner"
  shows
   "(findUserByKeyOrPhone db (update_user_key dto) (update_phone dto) = Inr operatorId \<longrightarrow>
       updateParticipantRole db P operatorId dto =
         (Inl (ConflictException ''Cannot change your own role''), db))
    \<and> (\<forall>t. findUserByKeyOrPhone db (update_user_key dto) (update_phone dto) = Inr t
            \<and> t \<noteq> operatorId \<and> getUserRole db P t = Some owner \<longrightarrow>
         updateParticipantRole db P operatorId dto =
           (Inl (ForbiddenException
              ''Cannot change owner role. Use transfer ownership instead.''), db))
    \<and> (\<forall>t r. findUserByKeyOrPhone db (update_user_key dto) (update_phone dto) = Inr t
            \<and> t \<noteq> operatorId \<and> getUserRole db P t = Some r \<and> r \<noteq> owner
            \<and> update_role dto = owner \<longrightarrow>
         updateParticipantRole db P operatorId dto =
           (Inl (ForbiddenException
              ''Cannot assign owner role. Use transfer ownership instead.''), db))
    \<and> (\<not> isOk (fst (updateParticipantRole db P operatorId dto)) \<longrightarrow>
         snd (updateParticipantRole db P operatorId dto) = db)"
proof -
  from op have can: "canChangeRole db P operatorId"
    by (simp add: canChangeRole_def hasRole_def)
  from op obtain p where p: "findParticipant db P operatorId = Some p"
    by (auto simp: getUserRole_def)
  have a: "findUserByKeyOrPhone db (update_user_key dto) (update_phone dto) = Inr operatorId \<longrightarrow>
       updateParticipantRole db P operatorId dto =
         (Inl (ConflictException ''Cannot change your own role''), db)"
    using can p by (simp add: updateParticipantRole_def)
  have b: "\<forall>t. findUserByKeyOrPhone db (update_user_key dto) (update_phone dto) = Inr t
            \<and> t \<noteq> operatorId \<and> getUserRole db P t = Some owner \<longrightarrow>
         updateParticipantRole db P operatorId dto =
           (Inl (ForbiddenException
              ''Cannot change owner role. Use transfer ownership instead.''), db)"
    using can by (auto simp: updateParticipantRole_def getUserRole_def)
  have c: "\<forall>t r. findUserByKeyOrPhone db (update_user_key dto) (update_phone dto) = Inr t
            \<and> t \<noteq> operatorId \<and> getUserRole db P t = Some r \<and> r \<noteq> owner
            \<and> update_role dto = owner \<longrightarrow>
         updateParticipantRole db P operatorId dto =
           (Inl (ForbiddenException
              ''Cannot assign owner role. Use transfer ownership instead.''), db)"
    using can by (auto simp: updateParticipantRole_def getUserRole_def)
  from a b c updateParticipantRole_rollback [of db P operatorId dto] show ?thesis
    by blast
qed

theorem updateParticipantRole_denials_witness:
  "getUserRole scenario_db 1 1 = Some owner
   \<and> findUserByKeyOrPhone scenario_db (Some ''k3'') None = Inr 3
   \<and> getUserRole scenario_db 1 3 = Some member_role
   \<and> updateParticipantRole scenario_db 1 1
        \<lparr>update_user_key = Some ''k3'', update_phone = None, update_role = owner\<rparr>
      = (Inl (ForbiddenException ''Cannot assign owner role. Use transfer ownership instead.''),
         scenario_db)
   \<and> findUserByKeyOrPhone scenario_db (Some ''k1'') None = Inr 1
   \<and> updateParticipantRole scenario_db 1 1
        \<lparr>update_user_key = Some ''k1'', update_phone = None, update_role = viewer\<rparr>
      = (Inl (ConflictException ''Cannot change your own role''), scenario_db)
   \<and> getUserRole scenario_db 2 1 = Some owner
   \<and> findUserByKeyOrPhone scenario_db (Some ''k2'') None = Inr 2
   \<and> getUserRole scenario_db 2 2 = Some owner
   \<and> updateParticipantRole scenario_db 2 1
        \<lparr>update_user_key = Some ''k2'', update_phone = None, update_role = viewer\<rparr>
      = (Inl (ForbiddenException ''Cannot change owner role. Use transfer ownership instead.''),
         scenario_db)"
proof -
  have h1: "getUserRole scenario_db 1 1 = Some owner"
    by (simp add: scenario_db_def getUserRole_def findParticipant_def)
  have h2: "findUserByKeyOrPhone scenario_db (Some ''k3'') None = Inr 3"
    by code_simp
  have h3: "getUserRole scenario_db 1 3 = Some member_role"
    by (simp add: scenario_db_def getUserRole_def findParticipant_def)
  have h4: "findUserByKeyOrPhone scenario_db (Some ''k1'') None = Inr 1"
    by code_simp
  have h5: "getUserRole scenario_db 2 1 = Some owner"
    by (simp add: scenario_db_def getUserRole_def findParticipant_def)
  have h6: "findUserByKeyOrPhone scenario_db (Some ''k2'') None = Inr 2"
    by code_simp
  have h7: "getUserRole scenario_db 2 2 = Some owner"
    by (simp add: scenario_db_def getUserRole_def findParticipant_def)
  from updateParticipantRole_denials [OF h1,
      of "\<lparr>update_user_key = Some ''k3'', update_phone = None, update_role = owner\<rparr>"]
    h2 h3
  have a: "updateParticipantRole scenario_db 1 1
        \<lparr>update_user_key = Some ''k3'', update_phone = None, update_role = owner\<rparr>
      = (Inl (ForbiddenException ''Cannot assign owner role. Use transfer ownership instead.''),
         scenario_db)"
    by simp
  from updateParticipantRole_denials [OF h1,
      of "\<lparr>update_user_key = Some ''k1'', update_phone = None, update_role = viewer\<rparr>"]
    h4
  have b: "updateParticipantRole scenario_db 1 1
        \<lparr>update_user_key = Some ''k1'', update_phone = None, update_role = viewer\<rparr>
      = (Inl (ConflictException ''Cannot change your own role''), scenario_db)"
    by simp
  from updateParticipantRole_denials [OF h5,
      of "\<lparr>update_user_key = Some ''k2'', update_phone = None, update_role = viewer\<rparr>"]
    h6 h7
  have c: "updateParticipantRole scenario_db 2 1
        \<lparr>update_user_key = Some ''k2'', update_phone = None, update_role = viewer\<rparr>
      = (Inl (ForbiddenException ''Cannot change owner role. Use transfer ownership instead.''),
         scenario_db)"
    by simp
  from h1 h2 h3 h4 h5 h6 h7 a b c show ?thesis by simp
qed

text \<open>
  The spec asks for Forbidden when the owner targets themselves; the service answers
  with Conflict.
\<close>

theorem updateParticipantRole_self_counterexample:
  "getUserRole scenario_db 1 1 = Some owner
   \<and> findUserByKeyOrPhone scenario_db (Some ''k1'') None = Inr 1
   \<and> fst (updateParticipantRole scenario_db 1 1
        \<lparr>update_user_key = Some ''k1'', update_phone = None, update_role = member_role\<rparr>)
      = Inl (ConflictException ''Cannot change your own role'')"
  by code_simp

section \<open>Inviting with an elevated role\<close>

lemma find_Some_mem: "find Q xs = Some x \<Longrightarrow> x \<in> set xs"
  by (induction xs) (auto split: if_splits)

lemma findUserByKeyOrPhone_in_users:
  "findUserByKeyOrPhone db user_key phone = Inr t \<Longrightarrow> t \<in> set (map u_id (users db))"
  by (auto simp: findUserByKeyOrPhone_def split: if_splits option.splits dest!: find_Some_mem)

lemma findPlan_in_plans:
  "findPlan db P \<noteq> None \<Longrightarrow> P \<in> set (map pl_id (plans db))"
  by (auto simp: findPlan_def find_Some_iff)

lemma inviteParticipant_rollback:
  "\<not> isOk (fst (inviteParticipant db P inviterId dto)) \<Longrightarrow>
     snd (inviteParticipant db P inviterId dto) = db"
  by (auto simp: inviteParticipant_def createParticipant_def isOk_def
           split: sum.splits if_splits)

lemma findUserByKeyOrPhone_Inl:
  assumes "findUserByKeyOrPhone db user_key phone = Inl e"
  shows "e = (if \<not> truthy user_key \<and> \<not> truthy phone
              then BadRequestException ''Must provide user_key or phone''
              else if truthy user_key
              then NotFoundException
                     (''User with user_key '' @ dquote @ template user_key @ dquote @ '' not found'')
              else NotFoundException
                     (''User with phone '' @ dquote @ template phone @ dquote @ '' not found''))"
  using assms
  by (auto simp: findUserByKeyOrPhone_def split: if_splits option.splits)

text \<open>
  Claim C8, as amended. An inviter who is admin of plan P passes the base check
  \<open>canInviteMembers\<close>, yet an invitation with the explicit role admin or owner always
  fails and adds no participant. The checks run in the order of the source: when the
  target does not resolve, the error of the lookup is returned, BadRequest when neither
  key nor phone is given and NotFound, naming the key or the phone, otherwise; when the
  target already takes part in P the error is Conflict; and when the target resolves and
  is not yet a participant the error is Forbidden ("Only owner can invite admin or
  owner"). An inviter who is owner may invite with any role: when the target resolves,
  is not yet a participant, and the plan row exists, the participant is added with the
  requested role, member when none is given.
\<close>

theorem inviteParticipant_elevated:
  "(getUserRole db P inviterId = Some admin
      \<and> (invite_role dto = Some admin \<or> invite_role dto = Some owner) \<longrightarrow>
        canInviteMembers db P inviterId
      \<and> \<not> isOk (fst (inviteParticipant db P inviterId dto))
      \<and> snd (inviteParticipant db P inviterId dto) = db
      \<and> (\<forall>e. findUserByKeyOrPhone db (invite_user_key dto) (invite_phone dto) = Inl e \<longrightarrow>
            inviteParticipant db P inviterId dto = (Inl e, db)
            \<and> e = (if \<not> truthy (invite_user_key dto) \<and> \<not> truthy (invite_phone dto)
                     then BadRequestException ''Must provide user_key or phone''
                     else if truthy (invite_user_key dto)
                     then NotFoundException
                            (''User with user_key '' @ dquote @ template (invite_user_key dto)
                               @ dquote @ '' not found'')
                     else NotFoundException
                            (''User with phone '' @ dquote @ template (invite_phone dto)
                               @ dquote @ '' not found'')))
      \<and> (\<forall>t. findUserByKeyOrPhone db (invite_user_key dto) (invite_phone dto) = Inr t
              \<and> findParticipant db P t \<noteq> None \<longrightarrow>
            inviteParticipant db P inviterId dto =
              (Inl (ConflictException ''User is already a participant''), db))
      \<and> (\<forall>t. findUserByKeyOrPhone db (invite_user_key dto) (invite_phone dto) = Inr t
              \<and> findParticipant db P t = None \<longrightarrow>
            inviteParticipant db P inviterId dto =
              (Inl (ForbiddenException ''Only owner can invite admin or owner''), db)))
   \<and> (\<forall>t. getUserRole db P inviterId = Some owner
          \<and> findUserByKeyOrPhone db (invite_user_key dto) (invite_phone dto) = Inr t
          \<and> findParticipant db P t = None \<and> findPlan db P \<noteq> None \<longrightarrow>
        inviteParticipant db P inviterId dto =
          (Inr \<lparr>pp_plan_id = P, pp_user_id = t,
                pp_role = (case invite_role dto of None \<Rightarrow> member_role | Some r \<Rightarrow> r)\<rparr>,
           db\<lparr>plan_participants := plan_participants db @
                [\<lparr>pp_plan_id = P, pp_user_id = t,
                  pp_role = (case invite_role dto of None \<Rightarrow> member_role | Some r \<Rightarrow> r)\<rparr>]\<rparr>))"
proof (intro conjI impI allI)
  assume h: "getUserRole db P inviterId = Some admin \<and>
             (invite_role dto = Some admin \<or> invite_role dto = Some owner)"
  then show can: "canInviteMembers db P inviterId"
    by (simp add: canInviteMembers_def hasRole_def)
  from h can show "\<not> isOk (fst (inviteParticipant db P inviterId dto))"
    by (auto simp: inviteParticipant_def isOk_def split: sum.splits)
  from h can show "snd (inviteParticipant db P inviterId dto) = db"
    by (auto simp: inviteParticipant_def split: sum.splits)
  {
    fix e
    assume e: "findUserByKeyOrPhone db (invite_user_key dto) (invite_phone dto) = Inl e"
    with can show "inviteParticipant db P inviterId dto = (Inl e, db)"
      by (simp add: inviteParticipant_def)
    from e show "e = (if \<not> truthy (invite_user_key dto) \<and> \<not> truthy (invite_phone dto)
                     then BadRequestException ''Must provide user_key or phone''
                     else if truthy (invite_user_key dto)
                     then NotFoundException
                            (''User with user_key '' @ dquote @ template (invite_user_key dto)
                               @ dquote @ '' not found'')
                     else NotFoundException
                            (''User with phone '' @ dquote @ template (invite_phone dto)
                               @ dquote @ '' not found''))"
      by (rule findUserByKeyOrPhone_Inl)
  }
  {
    fix t
    assume "findUserByKeyOrPhone db (invite_user_key dto) (invite_phone dto) = Inr t \<and>
            findParticipant db P t \<noteq> None"
    with can show "inviteParticipant db P inviterId dto =
              (Inl (ConflictException ''User is already a participant''), db)"
      by (auto simp: inviteParticipant_def)
  }
  fix t
  assume "findUserByKeyOrPhone db (invite_user_key dto) (invite_phone dto) = Inr t \<and>
          findParticipant db P t = None"
  with h can show "inviteParticipant db P inviterId dto =
              (Inl (ForbiddenException ''Only owner can invite admin or owner''), db)"
    by (auto simp: inviteParticipant_def)
next
  fix t
  assume h: "getUserRole db P inviterId = Some owner
          \<and> findUserByKeyOrPhone db (invite_user_key dto) (invite_phone dto) = Inr t
          \<and> findParticipant db P t = None \<and> findPlan db P \<noteq> None"
  then have can: "canInviteMembers db P inviterId"
    by (simp add: canInviteMembers_def hasRole_def)
  from h have u: "t \<in> set (map u_id (users db))"
    by (blast dest: findUserByKeyOrPhone_in_users)
  from h have pl: "P \<in> set (map pl_id (plans db))"
    by (intro findPlan_in_plans) simp
  from h can u pl show "inviteParticipant db P inviterId dto =
          (Inr \<lparr>pp_plan_id = P, pp_user_id = t,
                pp_role = (case invite_role dto of None \<Rightarrow> member_role | Some r \<Rightarrow> r)\<rparr>,
           db\<lparr>plan_participants := plan_participants db @
                [\<lparr>pp_plan_id = P, pp_user_id = t,
                  pp_role = (case invite_role dto of None \<Rightarrow> member_role | Some r \<Rightarrow> r)\<rparr>]\<rparr>)"
    by (simp add: inviteParticipant_def createParticipant_def)
qed

theorem inviteParticipant_elevated_witness:
  "getUserRole scenario_db 1 2 = Some admin
   \<and> findUserByKeyOrPhone scenario_db (Some ''k4'') None = Inr 4
   \<and> findParticipant scenario_db 1 4 = None
   \<and> inviteParticipant scenario_db 1 2
        \<lparr>invite_user_key = Some ''k4'', invite_phone = None, invite_role = Some owner\<rparr>
      = (Inl (ForbiddenException ''Only owner can invite admin or owner''), scenario_db)
   \<and> findUserByKeyOrPhone scenario_db (Some ''k3'') None = Inr 3
   \<and> findParticipant scenario_db 1 3 \<noteq> None
   \<and> inviteParticipant scenario_db 1 2
        \<lparr>invite_user_key = Some ''k3'', invite_phone = None, invite_role = Some admin\<rparr>
      = (Inl (ConflictException ''User is already a participant''), scenario_db)
   \<and> inviteParticipant scenario_db 1 2
        \<lparr>invite_user_key = None, invite_phone = None, invite_role = Some admin\<rparr>
      = (Inl (BadRequestException ''Must provide user_key or phone''), scenario_db)
   \<and> inviteParticipant scenario_db 1 2
        \<lparr>invite_user_key = Some ''k9'', invite_phone = None, invite_role = Some admin\<rparr>
      = (Inl (NotFoundException
           (''User with user_key '' @ dquote @ ''k9'' @ dquote @ '' not found'')), scenario_db)
   \<and> getUserRole scenario_db 1 1 = Some owner
   \<and> findPlan scenario_db 1 \<noteq> None
   \<and> isOk (fst (inviteParticipant scenario_db 1 1
        \<lparr>invite_user_key = Some ''k4'', invite_phone = None, invite_role = Some owner\<rparr>))
   \<and> getUserRole (snd (inviteParticipant scenario_db 1 1
        \<lparr>invite_user_key = Some ''k4'', invite_phone = None, invite_role = Some owner\<rparr>)) 1 4
       = Some owner"
proof -
  have h1: "getUserRole scenario_db 1 2 = Some admin"
    by (simp add: scenario_db_def getUserRole_def findParticipant_def)
  have h2: "findUserByKeyOrPhone scenario_db (Some ''k4'') None = Inr 4"
    by code_simp
  have h3: "findParticipant scenario_db 1 4 = None"
    by (simp add: scenario_db_def findParticipant_def)
  have h4: "getUserRole scenario_db 1 1 = Some owner"
    by (simp add: scenario_db_def getUserRole_def findParticipant_def)
  have h5: "findPlan scenario_db 1 \<noteq> None"
    by (simp add: scenario_db_def findPlan_def)
  have h6: "findUserByKeyOrPhone scenario_db (Some ''k3'') None = Inr 3"
    by code_simp
  have h7: "findParticipant scenario_db 1 3 \<noteq> None"
    by (simp add: scenario_db_def findParticipant_def)
  have h8: "findUserByKeyOrPhone scenario_db None None =
              Inl (BadRequestException ''Must provide user_key or phone'')"
    by code_simp
  have h9: "findUserByKeyOrPhone scenario_db (Some ''k9'') None =
              Inl (NotFoundException (''User with user_key '' @ dquote @ ''k9'' @ dquote @ '' not found''))"
    by code_simp
  have h10: "truthy (Some ''k9'')" by (simp add: truthy_def)
  let ?dto = "\<lparr>invite_user_key = Some ''k4'', invite_phone = None, invite_role = Some owner\<rparr>"
  let ?dtoC = "\<lparr>invite_user_key = Some ''k3'', invite_phone = None, invite_role = Some admin\<rparr>"
  let ?dtoB = "\<lparr>invite_user_key = None, invite_phone = None, invite_role = Some admin\<rparr>"
  let ?dtoN = "\<lparr>invite_user_key = Some ''k9'', invite_phone = None, invite_role = Some admin\<rparr>"
  from inviteParticipant_elevated [of scenario_db 1 2 ?dto] h1 h2 h3
  have a: "inviteParticipant scenario_db 1 2 ?dto
      = (Inl (ForbiddenException ''Only owner can invite admin or owner''), scenario_db)"
    by simp
  from inviteParticipant_elevated [of scenario_db 1 2 ?dtoC] h1 h6 h7
  have a3: "inviteParticipant scenario_db 1 2 ?dtoC
      = (Inl (ConflictException ''User is already a participant''), scenario_db)"
    by simp
  from inviteParticipant_elevated [of scenario_db 1 2 ?dtoB] h1 h8
  have a0: "inviteParticipant scenario_db 1 2 ?dtoB
      = (Inl (BadRequestException ''Must provide user_key or phone''), scenario_db)"
    by simp
  from inviteParticipant_elevated [of scenario_db 1 2 ?dtoN] h1 h9
  have a9: "inviteParticipant scenario_db 1 2 ?dtoN =
      (Inl (NotFoundException
         (''User with user_key '' @ dquote @ ''k9'' @ dquote @ '' not found'')), scenario_db)"
    by simp
  from inviteParticipant_elevated [of scenario_db 1 1 ?dto] h2 h3 h4 h5
  have b: "inviteParticipant scenario_db 1 1 ?dto =
          (Inr \<lparr>pp_plan_id = 1, pp_user_id = 4, pp_role = owner\<rparr>,
           scenario_db\<lparr>plan_participants := plan_participants scenario_db @
                [\<lparr>pp_plan_id = 1, pp_user_id = 4, pp_role = owner\<rparr>]\<rparr>)"
    by simp
  have c: "getUserRole (scenario_db\<lparr>plan_participants := plan_participants scenario_db @
                [\<lparr>pp_plan_id = 1, pp_user_id = 4, pp_role = owner\<rparr>]\<rparr>) 1 4 = Some owner"
    by (simp add: scenario_db_def getUserRole_def findParticipant_def)
  from a a3 a0 a9 b c h1 h2 h3 h4 h5 h6 h7 show ?thesis by (simp add: isOk_def)
qed

text \<open>
  The claim as the spec words it promises Forbidden for every such invitation. When the
  admin invites, as admin, a user who already takes part, the earlier check answers with
  Conflict.
\<close>

theorem inviteParticipant_conflict_counterexample:
  "getUserRole scenario_db 1 2 = Some admin
   \<and> canInviteMembers scenario_db 1 2
   \<and> inviteParticipant scenario_db 1 2
        \<lparr>invite_user_key = Some ''k3'', invite_phone = None, invite_role = Some admin\<rparr>
      = (Inl (ConflictException ''User is already a participant''), scenario_db)"
proof -
  let ?call = "inviteParticipant scenario_db 1 2
        \<lparr>invite_user_key = Some ''k3'', invite_phone = None, invite_role = Some admin\<rparr>"
  have r: "getUserRole scenario_db 1 2 = Some admin" by code_simp
  have c: "canInviteMembers scenario_db 1 2" by code_simp
  have f: "fst ?call = Inl (ConflictException ''User is already a participant'')"
    by code_simp
  then have "\<not> isOk (fst ?call)" by (simp add: isOk_def)
  then have "snd ?call = scenario_db" by (rule inviteParticipant_rollback)
  with f have "?call = (Inl (ConflictException ''User is already a participant''), scenario_db)"
    by (simp add: prod_eq_iff)
  with r c show ?thesis by simp
qed

section \<open>The roles of a user: removal and the floor of one role\<close>

lemma map_snd_zip_upt: "map snd (zip [n ..< n + length ys] ys) = ys"
  by (simp add: map_snd_zip)

lemma createManyUserRoles_Inr:
  assumes "createManyUserRoles db u ids = Inr db'"
  shows "map ur_role_id (userRolesOf db' u) = map ur_role_id (userRolesOf db u) @ ids"
    and "\<And>v. v \<noteq> u \<Longrightarrow> userRolesOf db' v = userRolesOf db v"
    and "roles db' = roles db" and "permissions db' = permissions db"
    and "role_permissions db' = role_permissions db" and "users db' = users db"
proof -
  let ?n = "fresh_id (map ur_id (user_roles db))"
  let ?new = "map (\<lambda>(i, roleId). \<lparr>ur_id = i, ur_user_id = u, ur_role_id = roleId\<rparr>)
                  (zip [?n ..< ?n + length ids] ids)"
  from assms have db': "db' = db\<lparr>user_roles := user_roles db @ ?new\<rparr>"
    by (simp add: createManyUserRoles_def Let_def split: if_splits)
  have all: "filter (\<lambda>ur. ur_user_id ur = u) ?new = ?new"
    by (rule filter_True) auto
  have ids: "map ur_role_id ?new = ids"
  proof -
    have "map ur_role_id ?new = map snd (zip [?n ..< ?n + length ids] ids)"
      by (simp add: case_prod_unfold comp_def)
    then show ?thesis by (simp add: map_snd_zip_upt)
  qed
  show "map ur_role_id (userRolesOf db' u) = map ur_role_id (userRolesOf db u) @ ids"
    unfolding db' userRolesOf_def using all ids by simp
  show "userRolesOf db' v = userRolesOf db v" if "v \<noteq> u" for v
  proof -
    have "filter (\<lambda>ur. ur_user_id ur = v) ?new = []"
      using that by (auto simp: filter_empty_conv)
    then show ?thesis unfolding db' userRolesOf_def by simp
  qed
  show "roles db' = roles db" "permissions db' = permissions db"
    "role_permissions db' = role_permissions db" "users db' = users db"
    by (simp_all add: db')
qed

lemma length_filter_other_key:
  "distinct (map f xs) \<Longrightarrow> x \<in> set xs \<Longrightarrow>
     length (filter (\<lambda>y. f y \<noteq> f x) xs) = length xs - 1"
proof (induction xs)
  case Nil
  then show ?case by simp
next
  case (Cons a xs)
  show ?case
  proof (cases "a = x")
    case True
    with Cons.prems have "\<forall>y\<in>set xs. f y \<noteq> f x" by (force simp: image_iff)
    then have "filter (\<lambda>y. f y \<noteq> f x) xs = xs" by (simp add: filter_True)
    with True show ?thesis by simp
  next
    case False
    with Cons.prems have x: "x \<in> set xs" and d: "distinct (map f xs)" and ne: "f a \<noteq> f x"
      by auto
    from Cons.IH [OF d x] x ne show ?thesis
      by (cases xs) auto
  qed
qed

lemma removeRoleByUserId_rollback:
  "\<not> isOk (fst (removeRoleByUserId db u k c)) \<Longrightarrow> snd (removeRoleByUserId db u k c) = db"
  by (auto simp: removeRoleByUserId_def isOk_def split: option.splits if_splits)

lemma removeRoleByUserId_sole:
  assumes r: "find (\<lambda>r. store_eq db (r_code r) c) (roles db) = Some R"
      and one: "map ur_role_id (userRolesOf db u) = [r_id R]"
  shows "removeRoleByUserId db u k c =
           (Inl (ConflictException
              ''Cannot remove the last role. User must have at least one role.''), db)"
proof -
  from one obtain ur where ur: "userRolesOf db u = [ur]" "ur_role_id ur = r_id R"
    by auto
  then have "ur \<in> set (user_roles db)" "ur_user_id ur = u"
    using filter_eq_ConsD [of "\<lambda>ur. ur_user_id ur = u" "user_roles db" ur "[]"]
    by (auto simp: userRolesOf_def)
  with ur have "find (\<lambda>ur. ur_user_id ur = u \<and> ur_role_id ur = r_id R) (user_roles db) \<noteq> None"
    by (auto simp: find_None_iff)
  then obtain x where
    "find (\<lambda>ur. ur_user_id ur = u \<and> ur_role_id ur = r_id R) (user_roles db) = Some x"
    by auto
  with r ur show ?thesis
    by (simp add: removeRoleByUserId_def)
qed

lemma removeRoleByUserId_Inr:
  assumes pk: "distinct (map ur_id (user_roles db))"
      and ok: "removeRoleByUserId db u k c = (Inr res, db')"
  shows "\<exists>R x. find (\<lambda>r. store_eq db (r_code r) c) (roles db) = Some R
              \<and> x \<in> set (userRolesOf db u) \<and> ur_role_id x = r_id R
              \<and> db' = db\<lparr>user_roles := filter (\<lambda>ur. ur_id ur \<noteq> ur_id x) (user_roles db)\<rparr>"
    and "length (userRolesOf db u) \<ge> 2"
    and "length (userRolesOf db' u) = length (userRolesOf db u) - 1"
    and "\<And>v. v \<noteq> u \<Longrightarrow> userRolesOf db' v = userRolesOf db v"
proof -
  from ok obtain R where R: "find (\<lambda>r. store_eq db (r_code r) c) (roles db) = Some R"
    by (auto simp: removeRoleByUserId_def split: option.splits)
  from ok R obtain x where
    x: "find (\<lambda>ur. ur_user_id ur = u \<and> ur_role_id ur = r_id R) (user_roles db) = Some x"
    by (auto simp: removeRoleByUserId_def split: option.splits)
  from ok R x have n1: "length (userRolesOf db u) \<noteq> 1"
    by (auto simp: removeRoleByUserId_def split: if_splits)
  from ok R x n1 have
    db': "db' = db\<lparr>user_roles := filter (\<lambda>ur. ur_id ur \<noteq> ur_id x) (user_roles db)\<rparr>"
    by (simp add: removeRoleByUserId_def)
  from x have xin: "x \<in> set (user_roles db)" "ur_user_id x = u" "ur_role_id x = r_id R"
    by (auto simp: find_Some_iff)
  then have xin': "x \<in> set (userRolesOf db u)" by (simp add: userRolesOf_def)
  with xin R db' show "\<exists>R x. find (\<lambda>r. store_eq db (r_code r) c) (roles db) = Some R
              \<and> x \<in> set (userRolesOf db u) \<and> ur_role_id x = r_id R
              \<and> db' = db\<lparr>user_roles := filter (\<lambda>ur. ur_id ur \<noteq> ur_id x) (user_roles db)\<rparr>"
    by blast
  from xin' have "length (userRolesOf db u) \<noteq> 0" by auto
  with n1 show "length (userRolesOf db u) \<ge> 2" by arith
  from pk have d: "distinct (map ur_id (userRolesOf db u))"
    by (simp add: userRolesOf_def distinct_map_filter)
  have "userRolesOf db' u = filter (\<lambda>ur. ur_id ur \<noteq> ur_id x) (userRolesOf db u)"
    unfolding db' userRolesOf_def by (simp add: conj_commute)
  with length_filter_other_key [OF d xin'] show
    "length (userRolesOf db' u) = length (userRolesOf db u) - 1"
    by simp
  show "userRolesOf db' v = userRolesOf db v" if "v \<noteq> u" for v
  proof -
    have "ur_id y \<noteq> ur_id x" if "y \<in> set (user_roles db)" "ur_user_id y = v" for y
    proof
      assume "ur_id y = ur_id x"
      with pk that(1) xin(1) have "y = x"
        by (auto simp: distinct_map inj_on_def)
      with that(2) xin(2) \<open>v \<noteq> u\<close> show False by simp
    qed
    then have "filter (\<lambda>ur. ur_user_id ur = v \<and> ur_id ur \<noteq> ur_id x) (user_roles db)
                 = filter (\<lambda>ur. ur_user_id ur = v) (user_roles db)"
      by (intro filter_cong) auto
    then show ?thesis
      unfolding db' userRolesOf_def by (simp add: conj_commute)
  qed
qed

lemma createManyUserRoles_frame:
  assumes "createManyUserRoles db u ids = Inr db'"
  shows "db' = db\<lparr>user_roles := user_roles db'\<rparr>"
  using assms by (auto simp: createManyUserRoles_def Let_def split: if_splits)

lemma assignRolesByUserId_Inr:
  assumes ok: "assignRolesByUserId db u k L = (Inr res, db')"
  shows "length (findRolesByCodes db L) = length L"
    and "filter (\<lambda>i. i \<notin> set (map ur_role_id (userRolesOf db u)))
           (map r_id (findRolesByCodes db L)) \<noteq> []"
    and "createManyUserRoles db u
           (filter (\<lambda>i. i \<notin> set (map ur_role_id (userRolesOf db u)))
              (map r_id (findRolesByCodes db L))) = Inr db'"
    and "resultRoles res =
           filter (\<lambda>r. r_id r \<in> set (filter (\<lambda>i. i \<notin> set (map ur_role_id (userRolesOf db u)))
              (map r_id (findRolesByCodes db L)))) (findRolesByCodes db L)"
proof -
  let ?new = "filter (\<lambda>i. i \<notin> set (map ur_role_id (userRolesOf db u)))
                (map r_id (findRolesByCodes db L))"
  show len: "length (findRolesByCodes db L) = length L"
  proof (rule ccontr)
    assume "length (findRolesByCodes db L) \<noteq> length L"
    then have "fst (assignRolesByUserId db u k L) =
      Inl (NotFoundException
           (''Roles not found: '' @ join (notFoundCodes (findRolesByCodes db L) L) '', ''))"
      by (simp add: assignRolesByUserId_def Let_def)
    with ok show False by simp
  qed
  show ne: "?new \<noteq> []"
  proof
    assume "?new = []"
    with len have "fst (assignRolesByUserId db u k L) =
      Inl (ConflictException ''All roles are already assigned to this user'')"
      by (simp add: assignRolesByUserId_def Let_def)
    with ok show False by simp
  qed
  from len ne have eq: "assignRolesByUserId db u k L =
      (case createManyUserRoles db u ?new of
              Inl e \<Rightarrow> (Inl e, db)
            | Inr db' \<Rightarrow>
                (Inr \<lparr>message = string_of_nat (length ?new) @ '' role(s) assigned successfully'',
                      userId = u, userKey = k,
                      resultRoles = filter (\<lambda>r. r_id r \<in> set ?new) (findRolesByCodes db L)\<rparr>,
                 db'))"
    by (simp add: assignRolesByUserId_def Let_def)
  show "createManyUserRoles db u ?new = Inr db'"
    using ok unfolding eq by (cases "createManyUserRoles db u ?new") simp_all
  show "resultRoles res = filter (\<lambda>r. r_id r \<in> set ?new) (findRolesByCodes db L)"
    using ok unfolding eq by (cases "createManyUserRoles db u ?new") auto
qed

lemma assignRolesByUserId_Inr_nonempty:
  assumes "assignRolesByUserId db u k L = (Inr res, db')"
  shows "length (userRolesOf db' u) \<ge> 1"
proof -
  note f = assignRolesByUserId_Inr [OF assms]
  from createManyUserRoles_Inr(1) [OF f(3)] f(2)
  have "map ur_role_id (userRolesOf db' u) \<noteq> []" by simp
  then show ?thesis by (cases "userRolesOf db' u") auto
qed

lemma updateUserRolesByUserId_Inr:
  assumes ok: "updateUserRolesByUserId db u k L = (Inr res, db')"
  shows "L \<noteq> []"
    and "length (findRolesByCodes db L) = length L"
    and "createManyUserRoles
           (db\<lparr>user_roles := filter (\<lambda>ur. ur_user_id ur \<noteq> u) (user_roles db)\<rparr>) u
           (map r_id (findRolesByCodes db L)) = Inr db'"
proof -
  let ?db1 = "db\<lparr>user_roles := filter (\<lambda>ur. ur_user_id ur \<noteq> u) (user_roles db)\<rparr>"
  let ?ids = "map r_id (findRolesByCodes db L)"
  show ne: "L \<noteq> []"
  proof
    assume "L = []"
    then have "fst (updateUserRolesByUserId db u k L) =
      Inl (ConflictException ''User must have at least one role'')"
      by (simp add: updateUserRolesByUserId_def)
    with ok show False by simp
  qed
  show len: "length (findRolesByCodes db L) = length L"
  proof (rule ccontr)
    assume "length (findRolesByCodes db L) \<noteq> length L"
    with ne have "fst (updateUserRolesByUserId db u k L) =
      Inl (NotFoundException
           (''Roles not found: '' @ join (notFoundCodes (findRolesByCodes db L) L) '', ''))"
      by (simp add: updateUserRolesByUserId_def Let_def)
    with ok show False by simp
  qed
  from len ne have eq: "updateUserRolesByUserId db u k L =
      (case createManyUserRoles ?db1 u ?ids of
              Inl e \<Rightarrow> (Inl e, db)
            | Inr db2 \<Rightarrow>
                (Inr \<lparr>message = ''User roles updated successfully'',
                      userId = u, userKey = k,
                      resultRoles = concat (map (roleOfUserRole db2) (userRolesOf db2 u))\<rparr>,
                 db2))"
    by (simp add: updateUserRolesByUserId_def Let_def)
  show "createManyUserRoles ?db1 u ?ids = Inr db'"
    using ok unfolding eq by (cases "createManyUserRoles ?db1 u ?ids") simp_all
qed

lemma updateUserRolesByUserId_Inr_nonempty:
  assumes "updateUserRolesByUserId db u k L = (Inr res, db')"
  shows "length (userRolesOf db' u) \<ge> 1"
proof -
  note f = updateUserRolesByUserId_Inr [OF assms]
  from f(1,2) have "map r_id (findRolesByCodes db L) \<noteq> []" by auto
  with createManyUserRoles_Inr(1) [OF f(3)]
  have "map ur_role_id (userRolesOf db' u) \<noteq> []" by simp
  then show ?thesis by (cases "userRolesOf db' u") auto
qed

lemma assignRolesByUserId_rollback:
  assumes "\<not> isOk (fst (assignRolesByUserId db u k L))"
  shows "snd (assignRolesByUserId db u k L) = db"
proof (cases "assignRolesByUserId db u k L")
  case (Pair r db')
  show ?thesis
  proof (cases r)
    case (Inl e)
    with Pair show ?thesis
      by (auto simp: assignRolesByUserId_def Let_def split: if_splits sum.splits)
  next
    case (Inr res)
    with Pair assms show ?thesis by (simp add: isOk_def)
  qed
qed

lemma updateUserRolesByUserId_rollback:
  assumes "\<not> isOk (fst (updateUserRolesByUserId db u k L))"
  shows "snd (updateUserRolesByUserId db u k L) = db"
proof (cases "updateUserRolesByUserId db u k L")
  case (Pair r db')
  show ?thesis
  proof (cases r)
    case (Inl e)
    with Pair show ?thesis
      by (auto simp: updateUserRolesByUserId_def Let_def split: if_splits sum.splits)
  next
    case (Inr res)
    with Pair assms show ?thesis by (simp add: isOk_def)
  qed
qed

lemma assignRolesByUserId_frame:
  assumes "assignRolesByUserId db u k L = (Inr res, db')"
  shows "\<And>v. v \<noteq> u \<Longrightarrow> userRolesOf db' v = userRolesOf db v"
    and "db' = db\<lparr>user_roles := user_roles db'\<rparr>"
proof -
  note c = assignRolesByUserId_Inr(3) [OF assms]
  show "userRolesOf db' v = userRolesOf db v" if "v \<noteq> u" for v
    using createManyUserRoles_Inr(2) [OF c that] .
  show "db' = db\<lparr>user_roles := user_roles db'\<rparr>"
    using createManyUserRoles_frame [OF c] .
qed

lemma updateUserRolesByUserId_frame:
  assumes "updateUserRolesByUserId db u k L = (Inr res, db')"
  shows "\<And>v. v \<noteq> u \<Longrightarrow> userRolesOf db' v = userRolesOf db v"
    and "db' = db\<lparr>user_roles := user_roles db'\<rparr>"
proof -
  let ?db1 = "db\<lparr>user_roles := filter (\<lambda>ur. ur_user_id ur \<noteq> u) (user_roles db)\<rparr>"
  note c = updateUserRolesByUserId_Inr(3) [OF assms]
  show "userRolesOf db' v = userRolesOf db v" if "v \<noteq> u" for v
  proof -
    have "filter (\<lambda>ur. ur_user_id ur = v \<and> ur_user_id ur \<noteq> u) (user_roles db)
            = filter (\<lambda>ur. ur_user_id ur = v) (user_roles db)"
      using that by (intro filter_cong) auto
    then have "userRolesOf ?db1 v = userRolesOf db v"
      by (simp add: userRolesOf_def conj_commute)
    with createManyUserRoles_Inr(2) [OF c that] show ?thesis by simp
  qed
  from createManyUserRoles_frame [OF c]
  have "db' = ?db1\<lparr>user_roles := user_roles db'\<rparr>" .
  then show "db' = db\<lparr>user_roles := user_roles db'\<rparr>" by simp
qed

text \<open>
  Claim C7. When user U holds exactly one role R and the code resolves to R,
  \<open>removeRole\<close> fails with Conflict and changes nothing. A removal that succeeds had a
  code that resolves to a role R, a row x of U for R and at least two roles of U; it
  leaves the store with exactly the row x deleted, so U has one role less and the rows
  of every other user are as they were. A removal that fails changes nothing. A
  successful assignment or replacement writes nothing but \<open>user_roles\<close>, leaves U with
  at least one role and the rows of every other user as they were. So no user who held a
  role is left without one by a successful call of the three operations. The primary
  key of \<open>user_roles\<close> is assumed distinct.
\<close>

theorem removeRole_keeps_one:
  assumes pk: "distinct (map ur_id (user_roles db))"
  shows
   "(\<forall>R. find (\<lambda>r. store_eq db (r_code r) c) (roles db) = Some R
          \<and> map ur_role_id (userRolesOf db u) = [r_id R] \<longrightarrow>
        removeRoleByUserId db u k c =
          (Inl (ConflictException
             ''Cannot remove the last role. User must have at least one role.''), db))
    \<and> (\<forall>res db'. removeRoleByUserId db u k c = (Inr res, db') \<longrightarrow>
          (\<exists>R x. find (\<lambda>r. store_eq db (r_code r) c) (roles db) = Some R
               \<and> x \<in> set (userRolesOf db u) \<and> ur_role_id x = r_id R
               \<and> db' = db\<lparr>user_roles :=
                            filter (\<lambda>ur. ur_id ur \<noteq> ur_id x) (user_roles db)\<rparr>)
          \<and> length (userRolesOf db u) \<ge> 2
          \<and> length (userRolesOf db' u) = length (userRolesOf db u) - 1
          \<and> length (userRolesOf db' u) \<ge> 1
          \<and> (\<forall>v. v \<noteq> u \<longrightarrow> userRolesOf db' v = userRolesOf db v)
          \<and> (\<forall>v. userRolesOf db v \<noteq> [] \<longrightarrow> userRolesOf db' v \<noteq> []))
    \<and> (\<not> isOk (fst (removeRoleByUserId db u k c)) \<longrightarrow>
          snd (removeRoleByUserId db u k c) = db)
    \<and> (\<forall>res db'. assignRolesByUserId db u k L = (Inr res, db') \<longrightarrow>
          length (userRolesOf db' u) \<ge> 1
          \<and> (\<forall>v. v \<noteq> u \<longrightarrow> userRolesOf db' v = userRolesOf db v)
          \<and> (\<forall>v. userRolesOf db v \<noteq> [] \<longrightarrow> userRolesOf db' v \<noteq> [])
          \<and> db' = db\<lparr>user_roles := user_roles db'\<rparr>)
    \<and> (\<forall>res db'. updateUserRolesByUserId db u k L = (Inr res, db') \<longrightarrow>
          length (userRolesOf db' u) \<ge> 1
          \<and> (\<forall>v. v \<noteq> u \<longrightarrow> userRolesOf db' v = userRolesOf db v)
          \<and> (\<forall>v. userRolesOf db v \<noteq> [] \<longrightarrow> userRolesOf db' v \<noteq> [])
          \<and> db' = db\<lparr>user_roles := user_roles db'\<rparr>)"
proof -
  have keep: "\<forall>v. userRolesOf db v \<noteq> [] \<longrightarrow> userRolesOf db' v \<noteq> []"
    if "length (userRolesOf db' u) \<ge> 1"
       "\<And>v. v \<noteq> u \<Longrightarrow> userRolesOf db' v = userRolesOf db v" for db'
  proof (intro allI impI)
    fix v assume "userRolesOf db v \<noteq> []"
    with that show "userRolesOf db' v \<noteq> []"
      by (cases "v = u") auto
  qed
  have sole: "\<forall>R. find (\<lambda>r. store_eq db (r_code r) c) (roles db) = Some R
          \<and> map ur_role_id (userRolesOf db u) = [r_id R] \<longrightarrow>
        removeRoleByUserId db u k c =
          (Inl (ConflictException
             ''Cannot remove the last role. User must have at least one role.''), db)"
    by (simp add: removeRoleByUserId_sole)
  have rem: "\<forall>res db'. removeRoleByUserId db u k c = (Inr res, db') \<longrightarrow>
          (\<exists>R x. find (\<lambda>r. store_eq db (r_code r) c) (roles db) = Some R
               \<and> x \<in> set (userRolesOf db u) \<and> ur_role_id x = r_id R
               \<and> db' = db\<lparr>user_roles :=
                            filter (\<lambda>ur. ur_id ur \<noteq> ur_id x) (user_roles db)\<rparr>)
          \<and> length (userRolesOf db u) \<ge> 2
          \<and> length (userRolesOf db' u) = length (userRolesOf db u) - 1
          \<and> length (userRolesOf db' u) \<ge> 1
          \<and> (\<forall>v. v \<noteq> u \<longrightarrow> userRolesOf db' v = userRolesOf db v)
          \<and> (\<forall>v. userRolesOf db v \<noteq> [] \<longrightarrow> userRolesOf db' v \<noteq> [])"
  proof (intro allI impI)
    fix res db'
    assume ok: "removeRoleByUserId db u k c = (Inr res, db')"
    note f = removeRoleByUserId_Inr [OF pk ok]
    from f(2,3) have one: "length (userRolesOf db' u) \<ge> 1" by arith
    from f(1,2,3) one f(4) keep [OF one f(4)]
    show "(\<exists>R x. find (\<lambda>r. store_eq db (r_code r) c) (roles db) = Some R
               \<and> x \<in> set (userRolesOf db u) \<and> ur_role_id x = r_id R
               \<and> db' = db\<lparr>user_roles :=
                            filter (\<lambda>ur. ur_id ur \<noteq> ur_id x) (user_roles db)\<rparr>)
          \<and> length (userRolesOf db u) \<ge> 2
          \<and> length (userRolesOf db' u) = length (userRolesOf db u) - 1
          \<and> length (userRolesOf db' u) \<ge> 1
          \<and> (\<forall>v. v \<noteq> u \<longrightarrow> userRolesOf db' v = userRolesOf db v)
          \<and> (\<forall>v. userRolesOf db v \<noteq> [] \<longrightarrow> userRolesOf db' v \<noteq> [])"
      by blast
  qed
  have undo: "\<not> isOk (fst (removeRoleByUserId db u k c)) \<longrightarrow>
          snd (removeRoleByUserId db u k c) = db"
    by (simp add: removeRoleByUserId_rollback)
  have asg: "\<forall>res db'. assignRolesByUserId db u k L = (Inr res, db') \<longrightarrow>
          length (userRolesOf db' u) \<ge> 1
          \<and> (\<forall>v. v \<noteq> u \<longrightarrow> userRolesOf db' v = userRolesOf db v)
          \<and> (\<forall>v. userRolesOf db v \<noteq> [] \<longrightarrow> userRolesOf db' v \<noteq> [])
          \<and> db' = db\<lparr>user_roles := user_roles db'\<rparr>"
  proof (intro allI impI)
    fix res db'
    assume ok: "assignRolesByUserId db u k L = (Inr res, db')"
    note one = assignRolesByUserId_Inr_nonempty [OF ok]
    note f = assignRolesByUserId_frame [OF ok]
    from one f(1) f(2) keep [OF one f(1)]
    show "length (userRolesOf db' u) \<ge> 1
          \<and> (\<forall>v. v \<noteq> u \<longrightarrow> userRolesOf db' v = userRolesOf db v)
          \<and> (\<forall>v. userRolesOf db v \<noteq> [] \<longrightarrow> userRolesOf db' v \<noteq> [])
          \<and> db' = db\<lparr>user_roles := user_roles db'\<rparr>"
      by blast
  qed
  have upd: "\<forall>res db'. updateUserRolesByUserId db u k L = (Inr res, db') \<longrightarrow>
          length (userRolesOf db' u) \<ge> 1
          \<and> (\<forall>v. v \<noteq> u \<longrightarrow> userRolesOf db' v = userRolesOf db v)
          \<and> (\<forall>v. userRolesOf db v \<noteq> [] \<longrightarrow> userRolesOf db' v \<noteq> [])
          \<and> db' = db\<lparr>user_roles := user_roles db'\<rparr>"
  proof (intro allI impI)
    fix res db'
    assume ok: "updateUserRolesByUserId db u k L = (Inr res, db')"
    note one = updateUserRolesByUserId_Inr_nonempty [OF ok]
    note f = updateUserRolesByUserId_frame [OF ok]
    from one f(1) f(2) keep [OF one f(1)]
    show "length (userRolesOf db' u) \<ge> 1
          \<and> (\<forall>v. v \<noteq> u \<longrightarrow> userRolesOf db' v = userRolesOf db v)
          \<and> (\<forall>v. userRolesOf db v \<noteq> [] \<longrightarrow> userRolesOf db' v \<noteq> [])
          \<and> db' = db\<lparr>user_roles := user_roles db'\<rparr>"
      by blast
  qed
  from sole rem undo asg upd show ?thesis by (intro conjI)
qed

theorem removeRole_keeps_one_witness:
  "distinct (map ur_id (user_roles rbac_db))
   \<and> map ur_role_id (userRolesOf rbac_db 1) = [2]
   \<and> removeRoleByUserId rbac_db 1 ''k1'' ''user'' =
       (Inl (ConflictException
          ''Cannot remove the last role. User must have at least one role.''), rbac_db)
   \<and> removeRoleByUserId rbac_db 1 ''k1'' ''USER'' =
       (Inl (ConflictException
          ''Cannot remove the last role. User must have at least one role.''), rbac_db)
   \<and> isOk (fst (removeRoleByUserId rbac_db 2 ''k2'' ''user''))
   \<and> length (userRolesOf (snd (removeRoleByUserId rbac_db 2 ''k2'' ''user'')) 2) = 1
   \<and> userRolesOf (snd (removeRoleByUserId rbac_db 2 ''k2'' ''user'')) 1 = userRolesOf rbac_db 1
   \<and> \<not> isOk (fst (removeRoleByUserId rbac_db 2 ''k2'' ''admin''))
   \<and> snd (removeRoleByUserId rbac_db 2 ''k2'' ''admin'') = rbac_db
   \<and> isOk (fst (assignRolesByUserId rbac_db 2 ''k2'' [''admin'']))
   \<and> length (userRolesOf (snd (assignRolesByUserId rbac_db 2 ''k2'' [''admin''])) 2) \<ge> 1
   \<and> userRolesOf (snd (assignRolesByUserId rbac_db 2 ''k2'' [''admin''])) 1
        = userRolesOf rbac_db 1
   \<and> isOk (fst (updateUserRolesByUserId rbac_db 2 ''k2'' [''admin'']))
   \<and> length (userRolesOf (snd (updateUserRolesByUserId rbac_db 2 ''k2'' [''admin''])) 2) \<ge> 1
   \<and> userRolesOf (snd (updateUserRolesByUserId rbac_db 2 ''k2'' [''admin''])) 1
        = userRolesOf rbac_db 1"
proof -
  have pk: "distinct (map ur_id (user_roles rbac_db))"
    by (simp add: rbac_db_def)
  have r: "find (\<lambda>r. store_eq rbac_db (r_code r) ''user'') (roles rbac_db) =
             Some \<lparr>r_id = 2, r_name = ''User'', r_code = ''user'', r_description = None,
                   r_is_system = True, r_updated_at = 0\<rparr>"
    by code_simp
  have r': "find (\<lambda>r. store_eq rbac_db (r_code r) ''USER'') (roles rbac_db) =
             Some \<lparr>r_id = 2, r_name = ''User'', r_code = ''user'', r_description = None,
                   r_is_system = True, r_updated_at = 0\<rparr>"
    by code_simp
  have one: "map ur_role_id (userRolesOf rbac_db 1) = [2]"
    by (simp add: rbac_db_def userRolesOf_def)
  have two: "length (userRolesOf rbac_db 2) = 2"
    by (simp add: rbac_db_def userRolesOf_def)
  have ne: "(1::nat) \<noteq> 2" by simp
  have ok: "isOk (fst (removeRoleByUserId rbac_db 2 ''k2'' ''user''))"
    by code_simp
  then obtain res where res: "removeRoleByUserId rbac_db 2 ''k2'' ''user'' =
      (Inr res, snd (removeRoleByUserId rbac_db 2 ''k2'' ''user''))"
    by (cases "removeRoleByUserId rbac_db 2 ''k2'' ''user''";
        cases "fst (removeRoleByUserId rbac_db 2 ''k2'' ''user'')")
       (auto simp: isOk_def)
  have bad: "\<not> isOk (fst (removeRoleByUserId rbac_db 2 ''k2'' ''admin''))"
    by code_simp
  have aok: "isOk (fst (assignRolesByUserId rbac_db 2 ''k2'' [''admin'']))"
    by code_simp
  then obtain ares where ares: "assignRolesByUserId rbac_db 2 ''k2'' [''admin''] =
      (Inr ares, snd (assignRolesByUserId rbac_db 2 ''k2'' [''admin'']))"
    by (cases "assignRolesByUserId rbac_db 2 ''k2'' [''admin'']";
        cases "fst (assignRolesByUserId rbac_db 2 ''k2'' [''admin''])")
       (auto simp: isOk_def)
  have uok: "isOk (fst (updateUserRolesByUserId rbac_db 2 ''k2'' [''admin'']))"
    by code_simp
  then obtain ures where ures: "updateUserRolesByUserId rbac_db 2 ''k2'' [''admin''] =
      (Inr ures, snd (updateUserRolesByUserId rbac_db 2 ''k2'' [''admin'']))"
    by (cases "updateUserRolesByUserId rbac_db 2 ''k2'' [''admin'']";
        cases "fst (updateUserRolesByUserId rbac_db 2 ''k2'' [''admin''])")
       (auto simp: isOk_def)
  from removeRole_keeps_one [OF pk, of "''user''" 1 "''k1''"] r one
  have a: "removeRoleByUserId rbac_db 1 ''k1'' ''user'' =
       (Inl (ConflictException
          ''Cannot remove the last role. User must have at least one role.''), rbac_db)"
    by simp
  from removeRole_keeps_one [OF pk, of "''USER''" 1 "''k1''"] r' one
  have a': "removeRoleByUserId rbac_db 1 ''k1'' ''USER'' =
       (Inl (ConflictException
          ''Cannot remove the last role. User must have at least one role.''), rbac_db)"
    by simp
  note t = removeRole_keeps_one [OF pk, of "''user''" 2 "''k2''" "[''admin'']"]
  from t res two
  have b: "length (userRolesOf (snd (removeRoleByUserId rbac_db 2 ''k2'' ''user'')) 2) = 1"
    by (metis diff_Suc_1 numeral_2_eq_2 One_nat_def)
  from t res ne
  have b': "userRolesOf (snd (removeRoleByUserId rbac_db 2 ''k2'' ''user'')) 1
              = userRolesOf rbac_db 1"
    by blast
  from removeRole_keeps_one [OF pk, of "''admin''" 2 "''k2''"] bad
  have c: "snd (removeRoleByUserId rbac_db 2 ''k2'' ''admin'') = rbac_db"
    by blast
  from t ares
  have d: "length (userRolesOf (snd (assignRolesByUserId rbac_db 2 ''k2'' [''admin''])) 2) \<ge> 1"
    by blast
  from t ares ne
  have d': "userRolesOf (snd (assignRolesByUserId rbac_db 2 ''k2'' [''admin''])) 1
              = userRolesOf rbac_db 1"
    by blast
  from t ures
  have e: "length (userRolesOf (snd (updateUserRolesByUserId rbac_db 2 ''k2'' [''admin''])) 2) \<ge> 1"
    by blast
  from t ures ne
  have e': "userRolesOf (snd (updateUserRolesByUserId rbac_db 2 ''k2'' [''admin''])) 1
              = userRolesOf rbac_db 1"
    by blast
  from pk one a a' ok b b' bad c aok d d' uok e e' show ?thesis by simp
qed

section \<open>The roles of a user: assignment and replacement\<close>

text \<open>
  A list of codes is written as stored when the store matches a code of the list only
  with a role whose code is that very string. For such a list the lookup by the store
  and the exact comparisons of the JavaScript agree.
\<close>

lemma findRolesByCodes_exact:
  assumes "\<forall>r\<in>set (roles db). \<forall>c\<in>set L. store_eq db (r_code r) c \<longrightarrow> r_code r = c"
  shows "findRolesByCodes db L = filter (\<lambda>r. r_code r \<in> set L) (roles db)"
  unfolding findRolesByCodes_def
  using assms by (intro filter_cong) (auto simp: store_eq_def)

lemma length_findRolesByCodes:
  assumes ex: "\<forall>r\<in>set (roles db). \<forall>c\<in>set L. store_eq db (r_code r) c \<longrightarrow> r_code r = c"
      and "distinct (map r_code (roles db))"
  shows "length (findRolesByCodes db L) = card (set L \<inter> set (map r_code (roles db)))"
proof -
  let ?cs = "map r_code (findRolesByCodes db L)"
  have m: "?cs = filter (\<lambda>c. c \<in> set L) (map r_code (roles db))"
    by (simp add: findRolesByCodes_exact [OF ex] filter_map comp_def)
  from assms(2) have "distinct (filter (\<lambda>c. c \<in> set L) (map r_code (roles db)))"
    by (rule distinct_filter)
  with m have "distinct ?cs" by (simp only:)
  then have "card (set ?cs) = length ?cs" by (rule distinct_card)
  moreover have "set ?cs = set L \<inter> set (map r_code (roles db))"
    unfolding m by auto
  ultimately have "length ?cs = card (set L \<inter> set (map r_code (roles db)))"
    by (simp only:)
  then show ?thesis by (simp only: length_map)
qed

lemma findRolesByCodes_missing:
  assumes ex: "\<forall>r\<in>set (roles db). \<forall>c\<in>set L. store_eq db (r_code r) c \<longrightarrow> r_code r = c"
      and u: "distinct (map r_code (roles db))"
      and m: "\<exists>c\<in>set L. c \<notin> set (map r_code (roles db))"
  shows "length (findRolesByCodes db L) \<noteq> length L"
proof -
  from m have "set L \<inter> set (map r_code (roles db)) \<subset> set L" by auto
  then have "card (set L \<inter> set (map r_code (roles db))) < card (set L)"
    by (simp add: psubset_card_mono)
  also have "\<dots> \<le> length L" by (rule card_length)
  finally show ?thesis using length_findRolesByCodes [OF ex u] by simp
qed

lemma findRolesByCodes_all:
  assumes ex: "\<forall>r\<in>set (roles db). \<forall>c\<in>set L. store_eq db (r_code r) c \<longrightarrow> r_code r = c"
      and u: "distinct (map r_code (roles db))"
      and d: "distinct L"
      and a: "set L \<subseteq> set (map r_code (roles db))"
  shows "length (findRolesByCodes db L) = length L"
proof -
  from a have "set L \<inter> set (map r_code (roles db)) = set L" by auto
  with length_findRolesByCodes [OF ex u] d show ?thesis
    by (simp add: distinct_card)
qed

lemma notFoundCodes_eq:
  "notFoundCodes (findRolesByCodes db L) L = filter (\<lambda>c. c \<notin> set (map r_code (roles db))) L"
  unfolding notFoundCodes_def
  by (rule filter_cong) (auto simp: findRolesByCodes_def store_eq_def)

lemma assignRoles_unresolved:
  assumes ex: "\<forall>r\<in>set (roles db). \<forall>c\<in>set L. store_eq db (r_code r) c \<longrightarrow> r_code r = c"
      and u: "distinct (map r_code (roles db))"
      and m: "\<exists>c\<in>set L. c \<notin> set (map r_code (roles db))"
  shows "assignRolesByUserId db uid k L =
          (Inl (NotFoundException (''Roles not found: '' @
                  join (filter (\<lambda>c. c \<notin> set (map r_code (roles db))) L) '', '')), db)"
  using findRolesByCodes_missing [OF ex u m]
  by (simp add: assignRolesByUserId_def Let_def notFoundCodes_eq)

lemma assignRoles_all_held:
  assumes ex: "\<forall>r\<in>set (roles db). \<forall>c\<in>set L. store_eq db (r_code r) c \<longrightarrow> r_code r = c"
      and u: "distinct (map r_code (roles db))"
      and d: "distinct L"
      and a: "set L \<subseteq> set (map r_code (roles db))"
      and h: "set (map r_id (findRolesByCodes db L)) \<subseteq> set (map ur_role_id (userRolesOf db uid))"
  shows "assignRolesByUserId db uid k L =
          (Inl (ConflictException ''All roles are already assigned to this user''), db)"
proof -
  from h have "filter (\<lambda>i. i \<notin> set (map ur_role_id (userRolesOf db uid)))
                 (map r_id (findRolesByCodes db L)) = []"
    by (auto simp: filter_empty_conv)
  with findRolesByCodes_all [OF ex u d a] show ?thesis
    by (simp add: assignRolesByUserId_def Let_def)
qed

lemma createManyUserRoles_ok:
  assumes "distinct ids"
      and "set ids \<inter> set (map ur_role_id (userRolesOf db uid)) = {}"
      and "uid \<in> set (map u_id (users db))"
      and "set ids \<subseteq> set (map r_id (roles db))"
  shows "\<exists>db'. createManyUserRoles db uid ids = Inr db'"
  using assms by (simp add: createManyUserRoles_def Let_def)

lemma assignRoles_inserts:
  assumes ex: "\<forall>r\<in>set (roles db). \<forall>c\<in>set L. store_eq db (r_code r) c \<longrightarrow> r_code r = c"
      and u: "distinct (map r_code (roles db))"
      and pk: "distinct (map r_id (roles db))"
      and d: "distinct L"
      and a: "set L \<subseteq> set (map r_code (roles db))"
      and nh: "\<not> set (map r_id (findRolesByCodes db L)) \<subseteq> set (map ur_role_id (userRolesOf db uid))"
      and ux: "uid \<in> set (map u_id (users db))"
  shows "\<exists>res db'. assignRolesByUserId db uid k L = (Inr res, db')
           \<and> map ur_role_id (userRolesOf db' uid) =
               map ur_role_id (userRolesOf db uid) @
               filter (\<lambda>i. i \<notin> set (map ur_role_id (userRolesOf db uid)))
                 (map r_id (findRolesByCodes db L))
           \<and> resultRoles res =
               filter (\<lambda>r. r_id r \<notin> set (map ur_role_id (userRolesOf db uid)))
                 (findRolesByCodes db L)"
proof -
  let ?new = "filter (\<lambda>i. i \<notin> set (map ur_role_id (userRolesOf db uid)))
                 (map r_id (findRolesByCodes db L))"
  from nh have ne: "?new \<noteq> []" by (auto simp: filter_empty_conv)
  from pk have "distinct (map r_id (findRolesByCodes db L))"
    by (simp add: findRolesByCodes_def distinct_map_filter)
  then have 1: "distinct ?new" by simp
  have 2: "set ?new \<inter> set (map ur_role_id (userRolesOf db uid)) = {}" by auto
  have 3: "set ?new \<subseteq> set (map r_id (roles db))"
    by (auto simp: findRolesByCodes_def)
  from createManyUserRoles_ok [OF 1 2 ux 3] obtain db' where
    c: "createManyUserRoles db uid ?new = Inr db'" by blast
  have r: "filter (\<lambda>r. r_id r \<in> set ?new) (findRolesByCodes db L) =
           filter (\<lambda>r. r_id r \<notin> set (map ur_role_id (userRolesOf db uid)))
                 (findRolesByCodes db L)"
    by (rule filter_cong) auto
  from findRolesByCodes_all [OF ex u d a] ne c r
  have "assignRolesByUserId db uid k L =
      (Inr \<lparr>message = string_of_nat (length ?new) @ '' role(s) assigned successfully'',
            userId = uid, userKey = k,
            resultRoles = filter (\<lambda>r. r_id r \<notin> set (map ur_role_id (userRolesOf db uid)))
                 (findRolesByCodes db L)\<rparr>, db')"
    by (simp add: assignRolesByUserId_def Let_def)
  with createManyUserRoles_Inr(1) [OF c] show ?thesis by simp
qed

lemma updateUserRoles_empty:
  "updateUserRolesByUserId db uid k [] =
     (Inl (ConflictException ''User must have at least one role''), db)"
  by (simp add: updateUserRolesByUserId_def)

lemma updateUserRoles_replaces:
  assumes ex: "\<forall>r\<in>set (roles db). \<forall>c\<in>set L. store_eq db (r_code r) c \<longrightarrow> r_code r = c"
      and u: "distinct (map r_code (roles db))"
      and pk: "distinct (map r_id (roles db))"
      and d: "distinct L"
      and ne: "L \<noteq> []"
      and a: "set L \<subseteq> set (map r_code (roles db))"
      and ux: "uid \<in> set (map u_id (users db))"
  shows "\<exists>res db'. updateUserRolesByUserId db uid k L = (Inr res, db')
           \<and> map ur_role_id (userRolesOf db' uid) = map r_id (findRolesByCodes db L)
           \<and> set (map ur_role_id (userRolesOf db' uid)) =
               r_id ` {r \<in> set (roles db). r_code r \<in> set L}"
proof -
  let ?db1 = "db\<lparr>user_roles := filter (\<lambda>ur. ur_user_id ur \<noteq> uid) (user_roles db)\<rparr>"
  let ?ids = "map r_id (findRolesByCodes db L)"
  have e: "userRolesOf ?db1 uid = []"
    by (simp add: userRolesOf_def filter_empty_conv)
  from pk have 1: "distinct ?ids"
    by (simp add: findRolesByCodes_def distinct_map_filter)
  from e have 2: "set ?ids \<inter> set (map ur_role_id (userRolesOf ?db1 uid)) = {}" by simp
  from ux have 3: "uid \<in> set (map u_id (users ?db1))" by simp
  have 4: "set ?ids \<subseteq> set (map r_id (roles ?db1))"
    by (auto simp: findRolesByCodes_def)
  from createManyUserRoles_ok [OF 1 2 3 4] obtain db' where
    c: "createManyUserRoles ?db1 uid ?ids = Inr db'" by blast
  from findRolesByCodes_all [OF ex u d a] ne c
  have "fst (updateUserRolesByUserId db uid k L) \<noteq> Inl e"
   and "snd (updateUserRolesByUserId db uid k L) = db'" for e
    by (simp_all add: updateUserRolesByUserId_def Let_def)
  then obtain res where "updateUserRolesByUserId db uid k L = (Inr res, db')"
    by (cases "updateUserRolesByUserId db uid k L"; cases "fst (updateUserRolesByUserId db uid k L)") auto
  moreover from createManyUserRoles_Inr(1) [OF c] e
  have m: "map ur_role_id (userRolesOf db' uid) = ?ids" by simp
  moreover have "set ?ids = r_id ` {r \<in> set (roles db). r_code r \<in> set L}"
    by (auto simp: findRolesByCodes_exact [OF ex])
  then have "set (map ur_role_id (userRolesOf db' uid)) =
               r_id ` {r \<in> set (roles db). r_code r \<in> set L}"
    by (simp only: m)
  ultimately show ?thesis by blast
qed

text \<open>
  Claim C3, at a list that names one role twice. Every code of the list resolves and the
  user exists, so the spec promises success with the role set of the list; the service
  compares the number of rows found with the length of the list, answers NotFound with an
  empty enumeration of missing codes, and changes nothing. For a list without repetition
  that is written as stored the promise holds (\<open>updateUserRoles_replaces\<close>), and the
  empty list is refused with Conflict (\<open>updateUserRoles_empty\<close>).
\<close>

theorem updateUserRoles_duplicate_codes:
  "set [''user'', ''user''] \<subseteq> set (map r_code (roles rbac_db))
   \<and> 1 \<in> set (map u_id (users rbac_db))
   \<and> updateUserRolesByUserId rbac_db 1 ''k1'' [''user'', ''user''] =
       (Inl (NotFoundException ''Roles not found: ''), rbac_db)"
proof -
  let ?call = "updateUserRolesByUserId rbac_db 1 ''k1'' [''user'', ''user'']"
  have a: "set [''user'', ''user''] \<subseteq> set (map r_code (roles rbac_db))"
    by (simp add: rbac_db_def)
  have b: "1 \<in> set (map u_id (users rbac_db))"
    by (simp add: rbac_db_def)
  have f: "fst ?call = Inl (NotFoundException ''Roles not found: '')"
    by code_simp
  then have "\<not> isOk (fst ?call)" by (simp add: isOk_def)
  then have "snd ?call = rbac_db" by (rule updateUserRolesByUserId_rollback)
  with f have "?call = (Inl (NotFoundException ''Roles not found: ''), rbac_db)"
    by (simp add: prod_eq_iff)
  with a b show ?thesis by simp
qed

text \<open>
  Claim C4, at a list that names one role twice. User 1 holds the role user: for the list
  user, user the spec promises Conflict, for the list admin, admin it promises that admin
  is assigned; the service answers both with NotFound and an empty enumeration, by the
  same comparison of lengths. For a list without repetition that is written as stored
  the three cases of the claim hold (\<open>assignRoles_unresolved\<close>,
  \<open>assignRoles_all_held\<close>, \<open>assignRoles_inserts\<close>).
\<close>

theorem assignRoles_duplicate_codes:
  "set [''admin'', ''admin''] \<subseteq> set (map r_code (roles rbac_db))
   \<and> set [''user'', ''user''] \<subseteq> set (map r_code (roles rbac_db))
   \<and> map ur_role_id (userRolesOf rbac_db 1) = [2]
   \<and> map r_id (findRolesByCodes rbac_db [''user'', ''user'']) = [2]
   \<and> assignRolesByUserId rbac_db 1 ''k1'' [''user'', ''user''] =
       (Inl (NotFoundException ''Roles not found: ''), rbac_db)
   \<and> map r_id (findRolesByCodes rbac_db [''admin'', ''admin'']) = [1]
   \<and> assignRolesByUserId rbac_db 1 ''k1'' [''admin'', ''admin''] =
       (Inl (NotFoundException ''Roles not found: ''), rbac_db)"
proof -
  let ?callU = "assignRolesByUserId rbac_db 1 ''k1'' [''user'', ''user'']"
  let ?callA = "assignRolesByUserId rbac_db 1 ''k1'' [''admin'', ''admin'']"
  have a: "set [''admin'', ''admin''] \<subseteq> set (map r_code (roles rbac_db))"
    by (simp add: rbac_db_def)
  have b: "set [''user'', ''user''] \<subseteq> set (map r_code (roles rbac_db))"
    by (simp add: rbac_db_def)
  have c: "map ur_role_id (userRolesOf rbac_db 1) = [2]"
    by (simp add: rbac_db_def userRolesOf_def)
  have d: "map r_id (findRolesByCodes rbac_db [''user'', ''user'']) = [2]"
    by code_simp
  have e: "map r_id (findRolesByCodes rbac_db [''admin'', ''admin'']) = [1]"
    by code_simp
  have fu: "fst ?callU = Inl (NotFoundException ''Roles not found: '')"
    by code_simp
  then have "\<not> isOk (fst ?callU)" by (simp add: isOk_def)
  then have "snd ?callU = rbac_db" by (rule assignRolesByUserId_rollback)
  with fu have u: "?callU = (Inl (NotFoundException ''Roles not found: ''), rbac_db)"
    by (simp add: prod_eq_iff)
  have fa: "fst ?callA = Inl (NotFoundException ''Roles not found: '')"
    by code_simp
  then have "\<not> isOk (fst ?callA)" by (simp add: isOk_def)
  then have "snd ?callA = rbac_db" by (rule assignRolesByUserId_rollback)
  with fa have a': "?callA = (Inl (NotFoundException ''Roles not found: ''), rbac_db)"
    by (simp add: prod_eq_iff)
  from a b c d e u a' show ?thesis by simp
qed

section \<open>The permissions of a user\<close>

lemma set_fold_set_add: "set (fold set_add xs acc) = set xs \<union> set acc"
  by (induction xs arbitrary: acc) (auto simp: set_add_def)

lemma distinct_fold_set_add: "distinct acc \<Longrightarrow> distinct (fold set_add xs acc)"
  by (induction xs arbitrary: acc) (auto simp: set_add_def)

lemma set_getUserPermissions:
  "set (getUserPermissions db u) =
     {p_code p | ur r rp p.
        ur \<in> set (user_roles db) \<and> ur_user_id ur = u
        \<and> r \<in> set (roles db) \<and> r_id r = ur_role_id ur
        \<and> rp \<in> set (role_permissions db) \<and> rp_role_id rp = r_id r
        \<and> p \<in> set (permissions db) \<and> p_id p = rp_permission_id rp}"
  (is "?lhs = ?rhs")
proof
  show "?lhs \<subseteq> ?rhs"
    by (auto simp: getUserPermissions_def set_fold_set_add userRolesOf_def roleOfUserRole_def
                   permissionsOfRole_def) metis
  show "?rhs \<subseteq> ?lhs"
  proof
    fix c assume "c \<in> ?rhs"
    then obtain ur r rp p where
      h: "c = p_code p" "ur \<in> set (user_roles db)" "ur_user_id ur = u"
         "r \<in> set (roles db)" "r_id r = ur_role_id ur"
         "rp \<in> set (role_permissions db)" "rp_role_id rp = r_id r"
         "p \<in> set (permissions db)" "p_id p = rp_permission_id rp"
      by blast
    then have "p \<in> set (permissionsOfRole db (r_id r))"
      by (auto simp: permissionsOfRole_def)
    moreover from h have "r \<in> set (roleOfUserRole db ur)"
      by (simp add: roleOfUserRole_def)
    moreover from h have "ur \<in> set (userRolesOf db u)"
      by (simp add: userRolesOf_def)
    ultimately show "c \<in> ?lhs"
      using h(1) by (auto simp: getUserPermissions_def set_fold_set_add)
  qed
qed

lemma getUserPermissions_mono:
  assumes "roles db' = roles db" "permissions db' = permissions db"
      and "role_permissions db' = role_permissions db"
      and "set (userRolesOf db u) \<subseteq> set (userRolesOf db' u)"
  shows "set (getUserPermissions db u) \<subseteq> set (getUserPermissions db' u)"
proof -
  from assms(4) have "\<And>ur. ur \<in> set (user_roles db) \<Longrightarrow> ur_user_id ur = u \<Longrightarrow>
     ur \<in> set (user_roles db')"
    by (auto simp: userRolesOf_def)
  then show ?thesis
    unfolding set_getUserPermissions assms(1-3) by blast
qed

lemma createManyUserRoles_mono:
  assumes "createManyUserRoles db u ids = Inr db'"
  shows "set (userRolesOf db u) \<subseteq> set (userRolesOf db' u)"
proof -
  from assms have "\<exists>new. db' = db\<lparr>user_roles := user_roles db @ new\<rparr>"
    by (auto simp: createManyUserRoles_def Let_def split: if_splits)
  then show ?thesis by (auto simp: userRolesOf_def)
qed

text \<open>
  Claim C6. The codes that \<open>getUserPermissions\<close> returns for user U are, as a set, the
  codes of the permissions joined to the roles joined to U: the union over U's roles of
  each role's permission codes. No code occurs twice, and a user without roles gets the
  empty list. The result is monotonic: when the role and permission tables are the same
  and U's user-role rows are a subset of the rows in a second store, every code returned
  in the first is returned in the second; in particular after a successful
  \<open>assignRoles\<close> for U.
\<close>

theorem getUserPermissions_union:
  "set (getUserPermissions db u) =
     {p_code p | ur r rp p.
        ur \<in> set (user_roles db) \<and> ur_user_id ur = u
        \<and> r \<in> set (roles db) \<and> r_id r = ur_role_id ur
        \<and> rp \<in> set (role_permissions db) \<and> rp_role_id rp = r_id r
        \<and> p \<in> set (permissions db) \<and> p_id p = rp_permission_id rp}
   \<and> distinct (getUserPermissions db u)
   \<and> (userRolesOf db u = [] \<longrightarrow> getUserPermissions db u = [])
   \<and> (roles db' = roles db \<and> permissions db' = permissions db
        \<and> role_permissions db' = role_permissions db
        \<and> set (userRolesOf db u) \<subseteq> set (userRolesOf db' u) \<longrightarrow>
          set (getUserPermissions db u) \<subseteq> set (getUserPermissions db' u))
   \<and> (\<forall>res db2. assignRolesByUserId db u k L = (Inr res, db2) \<longrightarrow>
          set (getUserPermissions db u) \<subseteq> set (getUserPermissions db2 u))"
proof (intro conjI impI allI)
  show "set (getUserPermissions db u) =
     {p_code p | ur r rp p.
        ur \<in> set (user_roles db) \<and> ur_user_id ur = u
        \<and> r \<in> set (roles db) \<and> r_id r = ur_role_id ur
        \<and> rp \<in> set (role_permissions db) \<and> rp_role_id rp = r_id r
        \<and> p \<in> set (permissions db) \<and> p_id p = rp_permission_id rp}"
    by (rule set_getUserPermissions)
  show "distinct (getUserPermissions db u)"
    by (simp add: getUserPermissions_def distinct_fold_set_add)
  show "getUserPermissions db u = []" if "userRolesOf db u = []"
    using that by (simp add: getUserPermissions_def)
  show "set (getUserPermissions db u) \<subseteq> set (getUserPermissions db' u)"
    if "roles db' = roles db \<and> permissions db' = permissions db
        \<and> role_permissions db' = role_permissions db
        \<and> set (userRolesOf db u) \<subseteq> set (userRolesOf db' u)"
    using that by (intro getUserPermissions_mono) simp_all
next
  fix res db2
  assume ok: "assignRolesByUserId db u k L = (Inr res, db2)"
  note c = assignRolesByUserId_Inr(3) [OF ok]
  from createManyUserRoles_Inr(3,4,5) [OF c] createManyUserRoles_mono [OF c]
  show "set (getUserPermissions db u) \<subseteq> set (getUserPermissions db2 u)"
    by (intro getUserPermissions_mono) simp_all
qed

theorem getUserPermissions_union_witness:
  "userRolesOf rbac_db 3 = [] \<and> getUserPermissions rbac_db 3 = []
   \<and> getUserPermissions rbac_db 2 = [''plan:read'', ''plan:update'']
   \<and> isOk (fst (assignRolesByUserId rbac_db 2 ''k2'' [''admin'']))
   \<and> set (getUserPermissions rbac_db 2)
        \<subseteq> set (getUserPermissions (snd (assignRolesByUserId rbac_db 2 ''k2'' [''admin''])) 2)
   \<and> getUserPermissions (snd (assignRolesByUserId rbac_db 2 ''k2'' [''admin''])) 2
        = [''plan:read'', ''plan:update'', ''user:delete'']
   \<and> set (userRolesOf rbac_db 1)
        \<subseteq> set (userRolesOf (rbac_db\<lparr>user_roles := user_roles rbac_db @
               [\<lparr>ur_id = 9, ur_user_id = 1, ur_role_id = 3\<rparr>]\<rparr>) 1)
   \<and> set (getUserPermissions rbac_db 1)
        \<subseteq> set (getUserPermissions (rbac_db\<lparr>user_roles := user_roles rbac_db @
               [\<lparr>ur_id = 9, ur_user_id = 1, ur_role_id = 3\<rparr>]\<rparr>) 1)"
proof -
  let ?db' = "rbac_db\<lparr>user_roles := user_roles rbac_db @
               [\<lparr>ur_id = 9, ur_user_id = 1, ur_role_id = 3\<rparr>]\<rparr>"
  have e: "userRolesOf rbac_db 3 = []"
    by (simp add: rbac_db_def userRolesOf_def)
  have p2: "getUserPermissions rbac_db 2 = [''plan:read'', ''plan:update'']"
    by code_simp
  have ok: "isOk (fst (assignRolesByUserId rbac_db 2 ''k2'' [''admin'']))"
    by code_simp
  have after: "getUserPermissions (snd (assignRolesByUserId rbac_db 2 ''k2'' [''admin''])) 2
        = [''plan:read'', ''plan:update'', ''user:delete'']"
    by code_simp
  have sub: "set (userRolesOf rbac_db 1) \<subseteq> set (userRolesOf ?db' 1)"
    by (auto simp: userRolesOf_def)
  from ok obtain res where res: "assignRolesByUserId rbac_db 2 ''k2'' [''admin''] =
      (Inr res, snd (assignRolesByUserId rbac_db 2 ''k2'' [''admin'']))"
    by (cases "assignRolesByUserId rbac_db 2 ''k2'' [''admin'']";
        cases "fst (assignRolesByUserId rbac_db 2 ''k2'' [''admin''])")
       (auto simp: isOk_def)
  note t = getUserPermissions_union [of rbac_db 3 rbac_db "''k''" "[]"]
  from t e have a: "getUserPermissions rbac_db 3 = []" by blast
  note t2 = getUserPermissions_union [of rbac_db 2 rbac_db "''k2''" "[''admin'']"]
  from t2 res have b: "set (getUserPermissions rbac_db 2)
        \<subseteq> set (getUserPermissions (snd (assignRolesByUserId rbac_db 2 ''k2'' [''admin''])) 2)"
    by blast
  note t3 = getUserPermissions_union [of rbac_db 1 ?db' "''k''" "[]"]
  have same: "roles ?db' = roles rbac_db \<and> permissions ?db' = permissions rbac_db
        \<and> role_permissions ?db' = role_permissions rbac_db"
    by simp
  from t3 same sub
  have c: "set (getUserPermissions rbac_db 1) \<subseteq> set (getUserPermissions ?db' 1)"
    by blast
  from e a p2 ok b after sub c show ?thesis by simp
qed

section \<open>The permissions of a role\<close>

lemma find_timestamp:
  "find (\<lambda>r. r_id r = R) (map (\<lambda>r. if r_id r = R then r\<lparr>r_updated_at := now\<rparr> else r) xs)
     = map_option (\<lambda>r. r\<lparr>r_updated_at := now\<rparr>) (find (\<lambda>r. r_id r = R) xs)"
  by (induction xs) auto

lemma filter_key_singleton:
  "distinct (map f xs) \<Longrightarrow> y \<in> set xs \<Longrightarrow> filter (\<lambda>p. f p = f y) xs = [y]"
proof (induction xs)
  case Nil
  then show ?case by simp
next
  case (Cons a xs)
  show ?case
  proof (cases "a = y")
    case True
    with Cons.prems have "\<forall>p\<in>set xs. f p \<noteq> f y" by (force simp: image_iff)
    then have "filter (\<lambda>p. f p = f y) xs = []" by (simp add: filter_empty_conv)
    with True show ?thesis by simp
  next
    case False
    with Cons.prems have y: "y \<in> set xs" and d: "distinct (map f xs)" by auto
    from Cons.prems y have "f a \<noteq> f y" by (force simp: image_iff)
    with Cons.IH [OF d y] show ?thesis by simp
  qed
qed

lemma concat_filter_keys:
  assumes "distinct (map f xs)" "set ys \<subseteq> set xs"
  shows "concat (map (\<lambda>i. filter (\<lambda>p. f p = i) xs) (map f ys)) = ys"
  using assms(2)
proof (induction ys)
  case Nil
  then show ?case by simp
next
  case (Cons y ys)
  then have "y \<in> set xs" "set ys \<subseteq> set xs" by auto
  with Cons.IH filter_key_singleton [OF assms(1), of y] show ?case by simp
qed

lemma permissionsOfRole_replaced:
  assumes pk: "distinct (map p_id (permissions db))"
      and sub: "set new \<subseteq> set (permissions db)"
      and rp: "filter (\<lambda>rp. rp_role_id rp = R) (role_permissions db') =
                 map (\<lambda>i. \<lparr>rp_role_id = R, rp_permission_id = i\<rparr>) (map p_id new)"
      and same: "permissions db' = permissions db"
  shows "permissionsOfRole db' R = new"
proof -
  have "permissionsOfRole db' R =
          concat (map (\<lambda>i. filter (\<lambda>p. p_id p = i) (permissions db)) (map p_id new))"
    by (simp add: permissionsOfRole_def rp same comp_def)
  with concat_filter_keys [OF pk sub] show ?thesis by simp
qed

lemma updateRolePermissions_unfold:
  assumes role: "find (\<lambda>r. r_id r = R) (roles db) = Some role"
      and pk: "distinct (map p_id (permissions db))"
  shows "updateRolePermissions db now R L =
           (Inr (Some (role\<lparr>r_updated_at := now\<rparr>, findPermissionsByCodes db L)),
            db\<lparr>role_permissions :=
                 filter (\<lambda>rp. rp_role_id rp \<noteq> R) (role_permissions db) @
                 map (\<lambda>i. \<lparr>rp_role_id = R, rp_permission_id = i\<rparr>)
                     (map p_id (findPermissionsByCodes db L)),
               roles := map (\<lambda>r. if r_id r = R then r\<lparr>r_updated_at := now\<rparr> else r) (roles db)\<rparr>)"
proof -
  let ?new = "findPermissionsByCodes db L"
  let ?db1 = "db\<lparr>role_permissions := filter (\<lambda>rp. rp_role_id rp \<noteq> R) (role_permissions db)\<rparr>"
  let ?db2 = "db\<lparr>role_permissions := filter (\<lambda>rp. rp_role_id rp \<noteq> R) (role_permissions db) @
                 map (\<lambda>i. \<lparr>rp_role_id = R, rp_permission_id = i\<rparr>) (map p_id ?new)\<rparr>"
  let ?db3 = "?db2\<lparr>roles := map (\<lambda>r. if r_id r = R then r\<lparr>r_updated_at := now\<rparr> else r)
                                   (roles db)\<rparr>"
  have new: "(if length L > 0 then findPermissionsByCodes db L else []) = ?new"
    by (simp add: findPermissionsByCodes_def)
  from pk have d: "distinct (map p_id ?new)"
    by (simp add: findPermissionsByCodes_def distinct_map_filter)
  from role have rin: "R \<in> set (map r_id (roles db))"
    by (force simp: find_Some_iff)
  have sub: "set (map p_id ?new) \<subseteq> set (map p_id (permissions db))"
    by (auto simp: findPermissionsByCodes_def)
  have none: "filter (\<lambda>rp. rp_role_id rp = R) (role_permissions ?db1) = []"
    by (simp add: filter_empty_conv)
  have c: "createManyRolePermissions ?db1 R (map p_id ?new) = Inr ?db2"
    using d rin sub none by (simp add: createManyRolePermissions_def)
  have step: "(if length ?new > 0
                then createManyRolePermissions ?db1 R (map p_id ?new)
                else Inr ?db1) = Inr ?db2"
  proof (cases "?new = []")
    case True
    then show ?thesis by simp
  next
    case False
    with c show ?thesis by simp
  qed
  have rows: "filter (\<lambda>rp. rp_role_id rp = R) (role_permissions ?db3) =
                 map (\<lambda>i. \<lparr>rp_role_id = R, rp_permission_id = i\<rparr>) (map p_id ?new)"
    by (simp add: filter_empty_conv comp_def)
  have perms: "permissionsOfRole ?db3 R = ?new"
    by (rule permissionsOfRole_replaced [OF pk _ rows]) (auto simp: findPermissionsByCodes_def)
  have fr: "findRoleWithPermissions ?db3 R = Some (role\<lparr>r_updated_at := now\<rparr>, ?new)"
    unfolding findRoleWithPermissions_def perms
    by (simp add: find_timestamp role)
  show ?thesis
    unfolding updateRolePermissions_def role option.case new Let_def step sum.case
    using fr by simp
qed

lemma set_permissionsOfRole:
  "set (permissionsOfRole db R) =
     {p. \<exists>rp. rp \<in> set (role_permissions db) \<and> rp_role_id rp = R
              \<and> p \<in> set (permissions db) \<and> p_id p = rp_permission_id rp}"
  by (auto simp: permissionsOfRole_def)

lemma codes_findPermissionsByCodes:
  "p_code ` set (findPermissionsByCodes db L) =
     {p_code p | p. p \<in> set (permissions db) \<and> (\<exists>c\<in>set L. store_eq db (p_code p) c)}"
  by (auto simp: findPermissionsByCodes_def)

lemma codes_findPermissionsByCodes_exact:
  assumes "\<forall>p\<in>set (permissions db). \<forall>c\<in>set L. store_eq db (p_code p) c \<longrightarrow> p_code p = c"
  shows "p_code ` set (findPermissionsByCodes db L) =
           {c \<in> set L. c \<in> p_code ` set (permissions db)}"
proof
  show "p_code ` set (findPermissionsByCodes db L)
          \<subseteq> {c \<in> set L. c \<in> p_code ` set (permissions db)}"
    using assms by (auto simp: findPermissionsByCodes_def)
  show "{c \<in> set L. c \<in> p_code ` set (permissions db)}
          \<subseteq> p_code ` set (findPermissionsByCodes db L)"
  proof
    fix c assume "c \<in> {c \<in> set L. c \<in> p_code ` set (permissions db)}"
    then obtain p where p: "c \<in> set L" "p \<in> set (permissions db)" "p_code p = c" by auto
    then have "store_eq db (p_code p) c" by (simp add: store_eq_def)
    with p have "p \<in> set (findPermissionsByCodes db L)"
      by (auto simp: findPermissionsByCodes_def)
    with p(3) show "c \<in> p_code ` set (findPermissionsByCodes db L)" by force
  qed
qed

lemma createRole_unknown_codes:
  assumes free: "find (\<lambda>r. store_eq db (r_name r) (dto_name dto)
                          \<or> store_eq db (r_code r) (lower (dto_name dto))) (roles db) = None"
      and l: "dto_permissions dto = Some L"
      and m: "\<exists>c\<in>set L. c \<notin> p_code ` set (permissions db)"
  shows "createRole db lower now dto =
           (Inl (BadRequestException (''Permissions not found: '' @
                   join (filter (\<lambda>c. c \<notin> p_code ` set (permissions db)) L) '', '')), db)"
proof -
  from m have ne: "length L > 0" by auto
  have nf: "filter (\<lambda>code. code \<notin> set (map p_code (findPermissionsByCodes db L))) L
              = filter (\<lambda>c. c \<notin> p_code ` set (permissions db)) L"
    by (rule filter_cong) (auto simp: findPermissionsByCodes_def store_eq_def)
  from m have "filter (\<lambda>c. c \<notin> p_code ` set (permissions db)) L \<noteq> []"
    by (auto simp: filter_empty_conv)
  with free l ne nf show ?thesis
    by (simp add: createRole_def Let_def)
qed

text \<open>
  Claim C10, as amended. \<open>updateRolePermissions\<close> does not check the requested codes.
  For a role that exists it succeeds for every list of codes, and afterwards the
  permissions joined to the role are exactly the rows of the permission table whose code
  the store matches with some code of the list; codes that match no row are dropped
  silently. When the list is written as stored, so that a code of the list is matched
  only with that very string, the codes of the role are exactly the codes of the list
  that occur in the table. \<open>createRole\<close>, under a free name, is refused with BadRequest
  as soon as a code of the list is not, as a string, the code of a row, and the error
  lists those codes. The primary key of \<open>permissions\<close> is assumed distinct.
\<close>

theorem updateRolePermissions_unvalidated:
  assumes role: "find (\<lambda>r. r_id r = R) (roles db) = Some role"
      and pk: "distinct (map p_id (permissions db))"
  shows "(\<exists>res db'. updateRolePermissions db now R L = (Inr res, db')
            \<and> {p_code p | rp p. rp \<in> set (role_permissions db') \<and> rp_role_id rp = R
                    \<and> p \<in> set (permissions db') \<and> p_id p = rp_permission_id rp}
                = {p_code p | p. p \<in> set (permissions db)
                                 \<and> (\<exists>c\<in>set L. store_eq db (p_code p) c)}
            \<and> ((\<forall>p\<in>set (permissions db). \<forall>c\<in>set L.
                    store_eq db (p_code p) c \<longrightarrow> p_code p = c) \<longrightarrow>
                 {p_code p | rp p. rp \<in> set (role_permissions db') \<and> rp_role_id rp = R
                    \<and> p \<in> set (permissions db') \<and> p_id p = rp_permission_id rp}
                   = {c \<in> set L. c \<in> p_code ` set (permissions db)}))
         \<and> (find (\<lambda>r. store_eq db (r_name r) (dto_name dto)
                        \<or> store_eq db (r_code r) (lower (dto_name dto))) (roles db) = None
              \<and> dto_permissions dto = Some L
              \<and> (\<exists>c\<in>set L. c \<notin> p_code ` set (permissions db)) \<longrightarrow>
             createRole db lower now dto =
               (Inl (BadRequestException (''Permissions not found: '' @
                   join (filter (\<lambda>c. c \<notin> p_code ` set (permissions db)) L) '', '')), db))"
proof (intro conjI impI)
  let ?db' = "db\<lparr>role_permissions :=
                 filter (\<lambda>rp. rp_role_id rp \<noteq> R) (role_permissions db) @
                 map (\<lambda>i. \<lparr>rp_role_id = R, rp_permission_id = i\<rparr>)
                     (map p_id (findPermissionsByCodes db L)),
               roles := map (\<lambda>r. if r_id r = R then r\<lparr>r_updated_at := now\<rparr> else r) (roles db)\<rparr>"
  let ?stored = "{p_code p | rp p. rp \<in> set (role_permissions ?db') \<and> rp_role_id rp = R
                    \<and> p \<in> set (permissions ?db') \<and> p_id p = rp_permission_id rp}"
  note u = updateRolePermissions_unfold [OF role pk, of now L]
  have rows: "filter (\<lambda>rp. rp_role_id rp = R) (role_permissions ?db') =
                 map (\<lambda>i. \<lparr>rp_role_id = R, rp_permission_id = i\<rparr>)
                     (map p_id (findPermissionsByCodes db L))"
    by (simp add: filter_empty_conv comp_def)
  have perms: "permissionsOfRole ?db' R = findPermissionsByCodes db L"
    by (rule permissionsOfRole_replaced [OF pk _ rows]) (auto simp: findPermissionsByCodes_def)
  have "?stored = p_code ` set (permissionsOfRole ?db' R)"
    unfolding set_permissionsOfRole by blast
  then have st: "?stored = p_code ` set (findPermissionsByCodes db L)"
    by (simp only: perms)
  have a: "?stored = {p_code p | p. p \<in> set (permissions db)
                                 \<and> (\<exists>c\<in>set L. store_eq db (p_code p) c)}"
    by (simp only: st codes_findPermissionsByCodes)
  have b: "(\<forall>p\<in>set (permissions db). \<forall>c\<in>set L.
                    store_eq db (p_code p) c \<longrightarrow> p_code p = c) \<longrightarrow>
           ?stored = {c \<in> set L. c \<in> p_code ` set (permissions db)}"
  proof
    assume "\<forall>p\<in>set (permissions db). \<forall>c\<in>set L. store_eq db (p_code p) c \<longrightarrow> p_code p = c"
    then show "?stored = {c \<in> set L. c \<in> p_code ` set (permissions db)}"
      by (simp only: st codes_findPermissionsByCodes_exact)
  qed
  from u a b show "\<exists>res db'. updateRolePermissions db now R L = (Inr res, db')
            \<and> {p_code p | rp p. rp \<in> set (role_permissions db') \<and> rp_role_id rp = R
                    \<and> p \<in> set (permissions db') \<and> p_id p = rp_permission_id rp}
                = {p_code p | p. p \<in> set (permissions db)
                                 \<and> (\<exists>c\<in>set L. store_eq db (p_code p) c)}
            \<and> ((\<forall>p\<in>set (permissions db). \<forall>c\<in>set L.
                    store_eq db (p_code p) c \<longrightarrow> p_code p = c) \<longrightarrow>
                 {p_code p | rp p. rp \<in> set (role_permissions db') \<and> rp_role_id rp = R
                    \<and> p \<in> set (permissions db') \<and> p_id p = rp_permission_id rp}
                   = {c \<in> set L. c \<in> p_code ` set (permissions db)})"
    by blast
next
  assume "find (\<lambda>r. store_eq db (r_name r) (dto_name dto)
                        \<or> store_eq db (r_code r) (lower (dto_name dto))) (roles db) = None
              \<and> dto_permissions dto = Some L
              \<and> (\<exists>c\<in>set L. c \<notin> p_code ` set (permissions db))"
  then show "createRole db lower now dto =
               (Inl (BadRequestException (''Permissions not found: '' @
                   join (filter (\<lambda>c. c \<notin> p_code ` set (permissions db)) L) '', '')), db)"
    by (intro createRole_unknown_codes) simp_all
qed

theorem updateRolePermissions_unvalidated_witness:
  "find (\<lambda>r. r_id r = 3) (roles rbac_db) \<noteq> None
   \<and> distinct (map p_id (permissions rbac_db))
   \<and> ''nope'' \<notin> p_code ` set (permissions rbac_db)
   \<and> (\<exists>res db'. updateRolePermissions rbac_db 7 3 [''USER:delete'', ''nope'', ''plan:read '']
                    = (Inr res, db')
          \<and> {p_code p | rp p. rp \<in> set (role_permissions db') \<and> rp_role_id rp = 3
                    \<and> p \<in> set (permissions db') \<and> p_id p = rp_permission_id rp}
              = {''user:delete'', ''plan:read''})
   \<and> (\<exists>res db'. updateRolePermissions rbac_db 7 3 [''user:delete'', ''nope'', ''plan:read'']
                    = (Inr res, db')
          \<and> {p_code p | rp p. rp \<in> set (role_permissions db') \<and> rp_role_id rp = 3
                    \<and> p \<in> set (permissions db') \<and> p_id p = rp_permission_id rp}
              = {c \<in> set [''user:delete'', ''nope'', ''plan:read''].
                   c \<in> p_code ` set (permissions rbac_db)})
   \<and> createRole rbac_db ascii_lower 7
        \<lparr>dto_name = ''Guest'', dto_description = None, dto_isSystem = None,
         dto_permissions = Some [''user:delete'', ''nope'', ''plan:read'']\<rparr>
      = (Inl (BadRequestException ''Permissions not found: nope''), rbac_db)"
proof -
  let ?L = "[''user:delete'', ''nope'', ''plan:read'']"
  let ?M = "[''USER:delete'', ''nope'', ''plan:read '']"
  let ?dto = "\<lparr>dto_name = ''Guest'', dto_description = None, dto_isSystem = None,
               dto_permissions = Some ?L\<rparr>"
  have role: "find (\<lambda>r. r_id r = 3) (roles rbac_db) =
                Some \<lparr>r_id = 3, r_name = ''Editor'', r_code = ''editor'', r_description = None,
                      r_is_system = False, r_updated_at = 0\<rparr>"
    by (simp add: rbac_db_def)
  have pk: "distinct (map p_id (permissions rbac_db))"
    by (simp add: rbac_db_def)
  have nope: "''nope'' \<notin> p_code ` set (permissions rbac_db)"
    by (simp add: rbac_db_def)
  have free: "find (\<lambda>r. store_eq rbac_db (r_name r) (dto_name ?dto)
                        \<or> store_eq rbac_db (r_code r) (ascii_lower (dto_name ?dto)))
                (roles rbac_db) = None"
    by code_simp
  have found: "map p_code (findPermissionsByCodes rbac_db ?M) = [''plan:read'', ''user:delete'']"
    by code_simp
  have "p_code ` set (findPermissionsByCodes rbac_db ?M) = {''plan:read'', ''user:delete''}"
    using found by (metis list.set_map list.simps(15) set_empty2)
  then have matched: "{p_code p | p. p \<in> set (permissions rbac_db)
                  \<and> (\<exists>c\<in>set ?M. store_eq rbac_db (p_code p) c)} = {''user:delete'', ''plan:read''}"
    unfolding codes_findPermissionsByCodes by auto
  have exact: "\<forall>p\<in>set (permissions rbac_db). \<forall>c\<in>set ?L.
                 store_eq rbac_db (p_code p) c \<longrightarrow> p_code p = c"
    by code_simp
  have missing: "filter (\<lambda>c. c \<notin> p_code ` set (permissions rbac_db)) ?L = [''nope'']"
    by (simp add: rbac_db_def)
  have rolex: "find (\<lambda>r. r_id r = 3) (roles rbac_db) \<noteq> None"
    by (simp add: role)
  note t = updateRolePermissions_unvalidated [OF role pk, of 7 ?M ?dto ascii_lower]
  from conjunct1 [OF t] obtain res db' where
    x: "updateRolePermissions rbac_db 7 3 ?M = (Inr res, db')
        \<and> {p_code p | rp p. rp \<in> set (role_permissions db') \<and> rp_role_id rp = 3
                    \<and> p \<in> set (permissions db') \<and> p_id p = rp_permission_id rp}
            = {p_code p | p. p \<in> set (permissions rbac_db)
                  \<and> (\<exists>c\<in>set ?M. store_eq rbac_db (p_code p) c)}
        \<and> ((\<forall>p\<in>set (permissions rbac_db). \<forall>c\<in>set ?M.
                    store_eq rbac_db (p_code p) c \<longrightarrow> p_code p = c) \<longrightarrow>
                 {p_code p | rp p. rp \<in> set (role_permissions db') \<and> rp_role_id rp = 3
                    \<and> p \<in> set (permissions db') \<and> p_id p = rp_permission_id rp}
                   = {c \<in> set ?M. c \<in> p_code ` set (permissions rbac_db)})"
    by (elim exE)
  from x have x1: "updateRolePermissions rbac_db 7 3 ?M = (Inr res, db')"
    by (rule conjunct1)
  from x have "{p_code p | rp p. rp \<in> set (role_permissions db') \<and> rp_role_id rp = 3
                    \<and> p \<in> set (permissions db') \<and> p_id p = rp_permission_id rp}
            = {p_code p | p. p \<in> set (permissions rbac_db)
                  \<and> (\<exists>c\<in>set ?M. store_eq rbac_db (p_code p) c)}"
    by (rule conjunct1 [OF conjunct2])
  then have x2: "{p_code p | rp p. rp \<in> set (role_permissions db') \<and> rp_role_id rp = 3
                    \<and> p \<in> set (permissions db') \<and> p_id p = rp_permission_id rp}
            = {''user:delete'', ''plan:read''}"
    by (simp only: matched)
  from x1 x2 have a: "\<exists>res db'. updateRolePermissions rbac_db 7 3 ?M = (Inr res, db')
          \<and> {p_code p | rp p. rp \<in> set (role_permissions db') \<and> rp_role_id rp = 3
                    \<and> p \<in> set (permissions db') \<and> p_id p = rp_permission_id rp}
              = {''user:delete'', ''plan:read''}"
    by (intro exI conjI)
  note t2 = updateRolePermissions_unvalidated [OF role pk, of 7 ?L ?dto ascii_lower]
  from conjunct1 [OF t2] obtain res2 db2 where
    y: "updateRolePermissions rbac_db 7 3 ?L = (Inr res2, db2)
        \<and> {p_code p | rp p. rp \<in> set (role_permissions db2) \<and> rp_role_id rp = 3
                    \<and> p \<in> set (permissions db2) \<and> p_id p = rp_permission_id rp}
            = {p_code p | p. p \<in> set (permissions rbac_db)
                  \<and> (\<exists>c\<in>set ?L. store_eq rbac_db (p_code p) c)}
        \<and> ((\<forall>p\<in>set (permissions rbac_db). \<forall>c\<in>set ?L.
                    store_eq rbac_db (p_code p) c \<longrightarrow> p_code p = c) \<longrightarrow>
                 {p_code p | rp p. rp \<in> set (role_permissions db2) \<and> rp_role_id rp = 3
                    \<and> p \<in> set (permissions db2) \<and> p_id p = rp_permission_id rp}
                   = {c \<in> set ?L. c \<in> p_code ` set (permissions rbac_db)})"
    by (elim exE)
  from y have y1: "updateRolePermissions rbac_db 7 3 ?L = (Inr res2, db2)"
    by (rule conjunct1)
  from y have "(\<forall>p\<in>set (permissions rbac_db). \<forall>c\<in>set ?L.
                    store_eq rbac_db (p_code p) c \<longrightarrow> p_code p = c) \<longrightarrow>
                 {p_code p | rp p. rp \<in> set (role_permissions db2) \<and> rp_role_id rp = 3
                    \<and> p \<in> set (permissions db2) \<and> p_id p = rp_permission_id rp}
                   = {c \<in> set ?L. c \<in> p_code ` set (permissions rbac_db)}"
    by (rule conjunct2 [OF conjunct2])
  from this exact have y2:
    "{p_code p | rp p. rp \<in> set (role_permissions db2) \<and> rp_role_id rp = 3
                    \<and> p \<in> set (permissions db2) \<and> p_id p = rp_permission_id rp}
                   = {c \<in> set ?L. c \<in> p_code ` set (permissions rbac_db)}"
    by (rule mp)
  from y1 y2 have a2: "\<exists>res db'. updateRolePermissions rbac_db 7 3 ?L = (Inr res, db')
          \<and> {p_code p | rp p. rp \<in> set (role_permissions db') \<and> rp_role_id rp = 3
                    \<and> p \<in> set (permissions db') \<and> p_id p = rp_permission_id rp}
              = {c \<in> set ?L. c \<in> p_code ` set (permissions rbac_db)}"
    by (intro exI conjI)
  have hyp: "find (\<lambda>r. store_eq rbac_db (r_name r) (dto_name ?dto)
                        \<or> store_eq rbac_db (r_code r) (ascii_lower (dto_name ?dto)))
                (roles rbac_db) = None
              \<and> dto_permissions ?dto = Some ?L
              \<and> (\<exists>c\<in>set ?L. c \<notin> p_code ` set (permissions rbac_db))"
    using free nope by simp
  from conjunct2 [OF t2] hyp
  have "createRole rbac_db ascii_lower 7 ?dto =
               (Inl (BadRequestException (''Permissions not found: '' @
                   join (filter (\<lambda>c. c \<notin> p_code ` set (permissions rbac_db)) ?L) '', '')),
                rbac_db)"
    by (rule mp)
  then have b: "createRole rbac_db ascii_lower 7 ?dto
      = (Inl (BadRequestException ''Permissions not found: nope''), rbac_db)"
    by (simp only: missing join.simps append.simps)
  from rolex pk nope a a2 b show ?thesis by (intro conjI)
qed

text \<open>
  The claim as the spec words it makes the resulting set a subset of the list. The store
  compares the column \<open>code\<close> without regard to case: for the list with the one code
  PLAN:READ the role is joined to the permission plan:read, a code that is not in the
  list, while no code of the list is, as a string, a code of the table.
\<close>

theorem updateRolePermissions_case_counterexample:
  "isOk (fst (updateRolePermissions rbac_db 7 3 [''PLAN:READ'']))
   \<and> map p_code (permissionsOfRole (snd (updateRolePermissions rbac_db 7 3 [''PLAN:READ''])) 3)
       = [''plan:read'']
   \<and> filter (\<lambda>c. c \<in> set (map p_code (permissions rbac_db))) [''PLAN:READ''] = []"
  by code_simp

end
